theory Spec2Isabelle
  imports Main "HOL-Library.Sublist"
begin

section \<open>The VisionCpp Python backend: build cache and toolchain pipeline\<close>

text \<open>
  A shallow embedding of \<^verbatim>\<open>contrib/python/visioncpp/backend.py\<close>. The module compiles a
  C++ source text with the ComputeCpp compiler in three stages (integration header, host
  object, link), keeps the linked binary in a file-system cache keyed by the source text,
  and loads the binary to run it.

  Everything the Python does beyond returning a value is explicit here: the file system
  and the observable effects (processes spawned, text printed, log records, cache stores)
  are a \<open>world\<close> value that every function takes and returns; every exception is a value
  of the type \<open>error\<close>; what the surroundings decide (the install prefix, the behaviour
  of the external processes, the directory name chosen by \<^verbatim>\<open>mkdtemp\<close>, the logging
  level) is a field of the record \<open>env\<close>.
\<close>

subsection \<open>Strings, bytes and paths\<close>

text \<open>
  A Python \<^verbatim>\<open>str\<close> is represented by its UTF-8 encoding, a list of bytes; so
  \<^verbatim>\<open>s.encode("utf-8")\<close> is the identity, and \<^verbatim>\<open>b.decode("utf-8")\<close> is the identity on
  well-formed UTF-8 and raises \<^verbatim>\<open>UnicodeDecodeError\<close> on everything else.
\<close>

type_synonym path = string

datatype error =
    VisionCppException string
  | AssertionError
  | SystemExit int
  | TypeError
  | ValueError
  | KeyError string
  | OSError
  | UnicodeDecodeError

text \<open>
  \<^verbatim>\<open>except Exception\<close> catches every exception of the module but \<^verbatim>\<open>SystemExit\<close>,
  which derives from \<^verbatim>\<open>BaseException\<close> only.
\<close>

fun is_Exception :: "error \<Rightarrow> bool" where
  "is_Exception (SystemExit rc) = False"
| "is_Exception e = True"

definition cont_byte :: "nat \<Rightarrow> bool" where
  "cont_byte b \<longleftrightarrow> 128 \<le> b \<and> b \<le> 191"

text \<open>Well-formed UTF-8 as the strict decoder accepts it (no overlong forms, no surrogates,
  nothing above U+10FFFF), on the list of byte values.\<close>

fun utf8_ok :: "nat list \<Rightarrow> bool" where
  "utf8_ok [] = True"
| "utf8_ok (b # bs) =
     (if b < 128 then utf8_ok bs
      else if 194 \<le> b \<and> b \<le> 223 then
        (case bs of
           b1 # r \<Rightarrow> cont_byte b1 \<and> utf8_ok r
         | _ \<Rightarrow> False)
      else if 224 \<le> b \<and> b \<le> 239 then
        (case bs of
           b1 # b2 # r \<Rightarrow>
             (if b = 224 then 160 \<le> b1 \<and> b1 \<le> 191
              else if b = 237 then 128 \<le> b1 \<and> b1 \<le> 159
              else cont_byte b1)
             \<and> cont_byte b2 \<and> utf8_ok r
         | _ \<Rightarrow> False)
      else if 240 \<le> b \<and> b \<le> 244 then
        (case bs of
           b1 # b2 # b3 # r \<Rightarrow>
             (if b = 240 then 144 \<le> b1 \<and> b1 \<le> 191
              else if b = 244 then 128 \<le> b1 \<and> b1 \<le> 143
              else cont_byte b1)
             \<and> cont_byte b2 \<and> cont_byte b3 \<and> utf8_ok r
         | _ \<Rightarrow> False)
      else False)"

definition utf8_valid :: "string \<Rightarrow> bool" where
  "utf8_valid s = utf8_ok (map of_char s)"

definition decode_utf8 :: "string \<Rightarrow> error + string" where
  "decode_utf8 bs = (if utf8_valid bs then Inr bs else Inl UnicodeDecodeError)"

text \<open>
  \<^verbatim>\<open>str.split()\<close> with no argument splits at runs of white space and drops empty
  tokens. White space is what \<^verbatim>\<open>str.isspace\<close> accepts: U+0009 to U+000D, U+001C to
  U+0020, U+0085, U+00A0, U+1680, U+2000 to U+200A, U+2028, U+2029, U+202F, U+205F and
  U+3000. \<open>ws_len\<close> is the number of bytes of the white-space character that starts the
  given bytes, 0 when none does.
\<close>

fun ws_len :: "nat list \<Rightarrow> nat" where
  "ws_len [] = 0"
| "ws_len (b # bs) =
     (if (9 \<le> b \<and> b \<le> 13) \<or> (28 \<le> b \<and> b \<le> 32) then 1
      else if b = 194 then
        (case bs of
           b1 # _ \<Rightarrow> if b1 = 133 \<or> b1 = 160 then 2 else 0
         | _ \<Rightarrow> 0)
      else if b = 225 \<or> b = 226 \<or> b = 227 then
        (case bs of
           b1 # b2 # _ \<Rightarrow>
             if b = 225 \<and> b1 = 154 \<and> b2 = 128 then 3
             else if b = 226 \<and> b1 = 128 \<and>
                     ((128 \<le> b2 \<and> b2 \<le> 138) \<or> b2 = 168 \<or> b2 = 169 \<or> b2 = 175) then 3
             else if b = 226 \<and> b1 = 129 \<and> b2 = 159 then 3
             else if b = 227 \<and> b1 = 128 \<and> b2 = 128 then 3
             else 0
         | _ \<Rightarrow> 0)
      else 0)"

function split_tokens :: "string \<Rightarrow> string \<Rightarrow> string list" where
  "split_tokens cur [] = (if cur = [] then [] else [cur])"
| "split_tokens cur (c # cs) =
     (let k = ws_len (map of_char (take 3 (c # cs))) in
      if k = 0 then split_tokens (cur @ [c]) cs
      else (if cur = [] then [] else [cur]) @ split_tokens [] (drop (k - 1) cs))"
  by pat_completeness auto
termination
  by (relation "measure (\<lambda>(cur, s). length s)") auto

definition split_ws :: "string \<Rightarrow> string list" where
  "split_ws s = split_tokens [] s"

text \<open>\<^verbatim>\<open>" ".join(xs)\<close>.\<close>

fun join_sp :: "string list \<Rightarrow> string" where
  "join_sp [] = []"
| "join_sp [x] = x"
| "join_sp (x # y # ys) = x @ '' '' @ join_sp (y # ys)"

text \<open>\<^verbatim>\<open>"{}".format(n)\<close> for a counter \<open>n\<close>: its decimal digits.\<close>

definition digit :: "nat \<Rightarrow> char" where
  "digit d =
     (if d = 0 then CHR ''0'' else if d = 1 then CHR ''1'' else if d = 2 then CHR ''2''
      else if d = 3 then CHR ''3'' else if d = 4 then CHR ''4'' else if d = 5 then CHR ''5''
      else if d = 6 then CHR ''6'' else if d = 7 then CHR ''7'' else if d = 8 then CHR ''8''
      else CHR ''9'')"

fun str_of_nat :: "nat \<Rightarrow> string" where
  "str_of_nat n = (if n < 10 then [digit n] else str_of_nat (n div 10) @ [digit (n mod 10)])"

text \<open>
  \<^verbatim>\<open>os.path.join\<close> on POSIX: a component that starts with a slash restarts the path;
  otherwise it is appended, after a slash unless the path so far is empty or ends in one.
\<close>

definition dir_sep :: "path \<Rightarrow> path" where
  "dir_sep d = (if d = [] \<or> last d = CHR ''/'' then d else d @ ''/'')"

definition path_join :: "path \<Rightarrow> path \<Rightarrow> path" where
  "path_join a b = (if b \<noteq> [] \<and> hd b = CHR ''/'' then b else dir_sep a @ b)"

definition path_join3 :: "path \<Rightarrow> path \<Rightarrow> path \<Rightarrow> path" where
  "path_join3 a b c = path_join (path_join a b) c"

text \<open>\<^verbatim>\<open>os.path.basename\<close>: what follows the last slash.\<close>

definition basename :: "path \<Rightarrow> path" where
  "basename p = rev (takeWhile (\<lambda>c. c \<noteq> CHR ''/'') (rev p))"

text \<open>A path is within a directory if it is the directory or lies below it.\<close>

definition within :: "path \<Rightarrow> path \<Rightarrow> bool" where
  "within d p \<longleftrightarrow> p = d \<or> prefix (dir_sep d) p"

subsection \<open>The world and the surroundings\<close>

text \<open>
  The observable effects, in the order in which they happen: a process started with
  \<^verbatim>\<open>Popen\<close> (its command line and the bytes sent to its standard input), a record
  passed to \<^verbatim>\<open>logging.info\<close> that the logging level lets through, text written to the
  standard output and to the standard error stream, a binary stored in the cache (the key
  and the path of the file stored), and what the runner does: an image shown, a library
  loaded, an entry point of the library called.
\<close>

datatype event =
    Spawn "string list" "string option"
  | LogInfo string
  | Stdout string
  | Stderr string
  | CacheStore string path
  | ShowImage path
  | LoadLibrary path
  | NativeCall string

record world =
  files :: "path set"
  trace :: "event list"

text \<open>
  How a \<^verbatim>\<open>Popen\<close> followed by \<^verbatim>\<open>communicate\<close> ends: the program cannot be started
  (\<^verbatim>\<open>OSError\<close>), or it runs and exits with a return code, its captured standard output
  and standard error, and the file system as it left it.
\<close>

datatype proc_result =
    SpawnFailed
  | Exited int string string "path set"

record env =
  computecpp_prefix :: path
  resource_include :: path
  opencv_cflags :: string
  opencv_libs :: string
  log_level :: int
  cache_root :: path
  escape_key :: "string \<Rightarrow> string"
  popen :: "string list \<Rightarrow> string option \<Rightarrow> path set \<Rightarrow> proc_result"
  tmp_name :: "path set \<Rightarrow> path"
  imread_ok :: "path \<Rightarrow> bool"
  load_ok :: "path \<Rightarrow> bool"
  test_add_output :: string

text \<open>
  \<open>computecpp_prefix\<close> is \<^verbatim>\<open>vp.computecpp_prefix\<close>; \<open>resource_include\<close> is
  \<^verbatim>\<open>resource_filename(__name__, "lib/include")\<close>; \<open>opencv_cflags\<close> and \<open>opencv_libs\<close>
  are what \<^verbatim>\<open>pkgconfig\<close> reports for \<^verbatim>\<open>opencv\<close>; \<open>log_level\<close> is the effective level
  of the root logger; \<open>cache_root\<close> is \<^verbatim>\<open>fs.path("~/.cache/visioncpp")\<close> and
  \<open>escape_key\<close> the function with which the cache turns a key into a file name;
  \<open>popen\<close> is the behaviour of external programs; \<open>tmp_name\<close> is the directory name
  that \<^verbatim>\<open>mkdtemp(prefix="visioncpp-")\<close> picks; \<open>imread_ok\<close>, \<open>load_ok\<close> and
  \<open>test_add_output\<close> say whether an image can be read, whether a binary can be loaded
  and what the array printed after the native call looks like.
\<close>

definition emit :: "event \<Rightarrow> world \<Rightarrow> world" where
  "emit e w = w\<lparr>trace := trace w @ [e]\<rparr>"

definition nl :: string where
  "nl = [CHR 0x0A]"

text \<open>\<^verbatim>\<open>os.path.exists\<close>; the empty path never exists.\<close>

definition path_exists :: "world \<Rightarrow> path \<Rightarrow> bool" where
  "path_exists w p \<longleftrightarrow> p \<noteq> [] \<and> p \<in> files w"

text \<open>\<^verbatim>\<open>logging.info\<close>: the record is emitted if the level is at most \<^verbatim>\<open>logging.INFO\<close> (20).\<close>

definition log_events :: "env \<Rightarrow> string \<Rightarrow> event list" where
  "log_events E msg = (if log_level E \<le> 20 then [LogInfo msg] else [])"

definition logging_info :: "env \<Rightarrow> string \<Rightarrow> world \<Rightarrow> world" where
  "logging_info E msg w = w\<lparr>trace := trace w @ log_events E msg\<rparr>"

text \<open>Sequencing: an exception of the first computation ends the whole.\<close>

definition and_then ::
  "(error + 'a) \<times> world \<Rightarrow> ('a \<Rightarrow> world \<Rightarrow> (error + 'b) \<times> world) \<Rightarrow> (error + 'b) \<times> world" where
  "and_then r f = (case r of (Inl e, w) \<Rightarrow> (Inl e, w) | (Inr a, w) \<Rightarrow> f a w)"

text \<open>
  \<^verbatim>\<open>mkdtemp\<close> creates a directory that did not exist; when the name on offer is taken
  (something exists at it or below it) it gives up with \<^verbatim>\<open>FileExistsError\<close>, an
  \<^verbatim>\<open>OSError\<close>.
\<close>

definition fresh_dir :: "path \<Rightarrow> path set \<Rightarrow> bool" where
  "fresh_dir d fs \<longleftrightarrow> d \<noteq> [] \<and> (\<forall>p\<in>fs. \<not> within d p)"

definition mkdtemp :: "env \<Rightarrow> world \<Rightarrow> (error + path) \<times> world" where
  "mkdtemp E w =
     (let d = tmp_name E (files w) in
      if fresh_dir d (files w) then (Inr d, w\<lparr>files := insert d (files w)\<rparr>)
      else (Inl OSError, w))"

text \<open>\<^verbatim>\<open>shutil.rmtree\<close>: removes the directory and all below it; the directory must exist.\<close>

definition rmtree :: "path \<Rightarrow> world \<Rightarrow> (error + unit) \<times> world" where
  "rmtree d w =
     (if path_exists w d then (Inr (), w\<lparr>files := {p \<in> files w. \<not> within d p}\<rparr>)
      else (Inl OSError, w))"

subsection \<open>The file-system cache of the library labm8\<close>

text \<open>
  Modelled from the spec: the class \<^verbatim>\<open>labm8.cache.FSCache\<close>, which belongs to a library and
  is not among the sources. For the specification the cache is a durable store rooted at a
  fixed directory and keyed by content hash, a lookup gives the path of a previously linked
  binary if there is one, and the final artifact leaves the scratch directory for the
  cache before the directory is torn down. This is the library's own description too:
  each key identifies a file, each value is a file path, adding a file to the cache moves
  it into the cache directory. So:
  \<^item> creating the cache object creates the root directory;
  \<^item> the file of a key is \<open>keypath\<close>, the root joined with the escaped key;
  \<^item> \<^verbatim>\<open>key in cache\<close> tests that this file exists; \<^verbatim>\<open>cache[key]\<close> returns its path or
    raises \<^verbatim>\<open>KeyError\<close>; \<^verbatim>\<open>cache.get(key)\<close> returns its path or \<^verbatim>\<open>None\<close>;
  \<^item> \<^verbatim>\<open>cache[key] = value\<close> raises \<^verbatim>\<open>ValueError\<close> if the file \<open>value\<close> does not exist,
    and otherwise moves it to the file of the key.
\<close>

definition fscache_init :: "env \<Rightarrow> world \<Rightarrow> world" where
  "fscache_init E w = w\<lparr>files := insert (cache_root E) (files w)\<rparr>"

definition keypath :: "env \<Rightarrow> string \<Rightarrow> path" where
  "keypath E key = path_join (cache_root E) (escape_key E key)"

definition fscache_contains :: "env \<Rightarrow> string \<Rightarrow> world \<Rightarrow> bool" where
  "fscache_contains E key w = path_exists w (keypath E key)"

definition fscache_getitem :: "env \<Rightarrow> string \<Rightarrow> world \<Rightarrow> (error + path) \<times> world" where
  "fscache_getitem E key w =
     (if path_exists w (keypath E key) then (Inr (keypath E key), w)
      else (Inl (KeyError key), w))"

definition fscache_get :: "env \<Rightarrow> string \<Rightarrow> world \<Rightarrow> path option" where
  "fscache_get E key w =
     (if fscache_contains E key w then Some (keypath E key) else None)"

definition fscache_setitem :: "env \<Rightarrow> string \<Rightarrow> path \<Rightarrow> world \<Rightarrow> (error + unit) \<times> world" where
  "fscache_setitem E key val w =
     (if \<not> path_exists w val then (Inl ValueError, w)
      else (Inr (),
            emit (CacheStore key val)
              (w\<lparr>files := insert (keypath E key)
                             (insert (cache_root E) (files w) - {val})\<rparr>)))"

subsection \<open>Compiler flags\<close>

definition get_host_cflags :: "env \<Rightarrow> string list" where
  "get_host_cflags E =
     [''-x'', ''c++'',
      ''-std=c++11'',
      ''-D_GLIBCXX_USE_CXX11_ABI=0'',
      ''-I'' @ path_join (computecpp_prefix E) ''include'',
      ''-I'' @ resource_include E]
     @ split_ws (opencv_cflags E)"

text \<open>
  The device flags are what \<^verbatim>\<open>computecpp_info --dump-device-compiler-flags\<close> prints.
  The return code and the standard error of the process are not looked at.
\<close>

definition device_info_cmd :: "env \<Rightarrow> string list" where
  "device_info_cmd E =
     [path_join3 (computecpp_prefix E) ''bin'' ''computecpp_info'',
      ''--dump-device-compiler-flags'']"

definition get_device_cflags :: "env \<Rightarrow> world \<Rightarrow> (error + string list) \<times> world" where
  "get_device_cflags E w =
     (let cmd = device_info_cmd E
      in case popen E cmd None (files w) of
           SpawnFailed \<Rightarrow> (Inl OSError, w)
         | Exited returncode out err fs \<Rightarrow>
             (let w1 = (emit (Spawn cmd None) w)\<lparr>files := fs\<rparr>
              in case decode_utf8 out of
                   Inl e \<Rightarrow> (Inl e, w1)
                 | Inr s \<Rightarrow> (Inr (split_ws s), w1)))"

definition get_ldflags :: "env \<Rightarrow> string list" where
  "get_ldflags E =
     (let libdirs = [path_join (computecpp_prefix E) ''lib''];
          libs = [''ComputeCpp'', ''pthread'']
      in split_ws (opencv_libs E)
         @ map (\<lambda>x. ''-L'' @ x) libdirs
         @ map (\<lambda>x. ''-l'' @ x) libs)"

subsection \<open>The toolchain invoker\<close>

text \<open>\<^verbatim>\<open>print(t, file=sys.stderr, end="")\<close> for each text of a list, in order.\<close>

definition eprints :: "string list \<Rightarrow> world \<Rightarrow> world" where
  "eprints ts w = w\<lparr>trace := trace w @ map Stderr ts\<rparr>"

text \<open>
  \<open>invoke_computecpp\<close>: the command line is passed to \<^verbatim>\<open>logging.info\<close>, the compiler
  runs with the given input, and a return code other than 0 ends in \<^verbatim>\<open>sys.exit\<close> with
  that code after the input, the output and the error output have been printed to the
  standard error stream. Both outputs are decoded before they are printed.
\<close>

definition computecpp :: "env \<Rightarrow> path" where
  "computecpp E = path_join3 (computecpp_prefix E) ''bin'' ''compute++''"

definition invoke_computecpp ::
  "env \<Rightarrow> string list \<Rightarrow> string option \<Rightarrow> world \<Rightarrow> (error + unit) \<times> world" where
  "invoke_computecpp E args stdin w =
     (let cmd = computecpp E # args;
          w1 = logging_info E (join_sp cmd) w
      in case popen E cmd stdin (files w1) of
           SpawnFailed \<Rightarrow> (Inl OSError, w1)
         | Exited returncode out err fs \<Rightarrow>
             (let w2 = (emit (Spawn cmd stdin) w1)\<lparr>files := fs\<rparr> in
              if returncode \<noteq> 0 then
                (let w3 = eprints [''================'' @ nl,
                                   ''ComputeCpp Error'' @ nl,
                                   ''================'' @ nl,
                                   nl] w2;
                     w4 = (case stdin of
                             None \<Rightarrow> w3
                           | Some inp \<Rightarrow>
                               eprints [''=== compute++ input:'' @ nl, nl, inp, nl] w3);
                     w5 = eprints [''=== compute++ output:'' @ nl, nl] w4
                 in case decode_utf8 out of
                      Inl e \<Rightarrow> (Inl e, w5)
                    | Inr out_text \<Rightarrow>
                        (let w6 = eprints [out_text, nl,
                                           ''=== compute++ error output:'' @ nl, nl] w5
                         in case decode_utf8 err of
                              Inl e \<Rightarrow> (Inl e, w6)
                            | Inr err_text \<Rightarrow>
                                (Inl (SystemExit returncode),
                                 eprints [err_text, nl,
                                          ''========================='' @ nl,
                                          ''FATAL ERROR. TERMINATING.'' @ nl] w6)))
              else (Inr (), w2)))"

subsection \<open>The three stages\<close>

text \<open>The argument lists of the three compiler runs, named so that theorems can refer to them.\<close>

definition host_args :: "env \<Rightarrow> path \<Rightarrow> path \<Rightarrow> string list" where
  "host_args E stub dest =
     get_host_cflags E @
     [''-c'', ''-'',
      ''-fPIC'',
      ''-include'', stub,
      ''-o'', dest]"

definition stub_args :: "env \<Rightarrow> string list \<Rightarrow> path \<Rightarrow> string list" where
  "stub_args E device_cflags dest =
     get_host_cflags E @ device_cflags @
     [''-c'', ''-'',
      ''-o'', dest]"

definition link_args :: "env \<Rightarrow> path \<Rightarrow> path \<Rightarrow> string list" where
  "link_args E host dest =
     (let computecpp_lib_path = path_join (computecpp_prefix E) ''lib''
      in [''-std=c++11'',
          ''-shared'',
          ''-Wl,-soname,visioncpp_native.so'',
          ''-Wl,-rpath='' @ computecpp_lib_path,
          host,
          ''-o'', dest] @ get_ldflags E)"

definition host_compile ::
  "env \<Rightarrow> string \<Rightarrow> path \<Rightarrow> path \<Rightarrow> world \<Rightarrow> (error + path) \<times> world" where
  "host_compile E code stub dir w =
     (let dest = path_join dir ''host.o'' in
      if path_exists w dest then (Inl AssertionError, w)
      else
        (let args = host_args E stub dest
         in and_then (invoke_computecpp E args (Some code) w) (\<lambda>_ w1.
              if path_exists w1 dest then (Inr dest, w1) else (Inl AssertionError, w1))))"

definition stub_file :: "env \<Rightarrow> string \<Rightarrow> path \<Rightarrow> world \<Rightarrow> (error + path) \<times> world" where
  "stub_file E code dir w =
     (let dest = path_join dir ''stub.sycl'' in
      if path_exists w dest then (Inl AssertionError, w)
      else
        and_then (get_device_cflags E w) (\<lambda>device_cflags w1.
          (let args = stub_args E device_cflags dest
           in and_then (invoke_computecpp E args (Some code) w1) (\<lambda>_ w2.
                if path_exists w2 dest then (Inr dest, w2) else (Inl AssertionError, w2)))))"

definition link :: "env \<Rightarrow> path \<Rightarrow> path \<Rightarrow> world \<Rightarrow> (error + path) \<times> world" where
  "link E host dir w =
     (let dest = path_join dir ''visioncpp_native'' in
      if path_exists w dest then (Inl AssertionError, w)
      else
        (let args = link_args E host dest
         in and_then (invoke_computecpp E args None w) (\<lambda>_ w1.
              if path_exists w1 dest then (Inr dest, w1) else (Inl AssertionError, w1))))"

subsection \<open>The toolchain presence check\<close>

definition not_found_message :: "path \<Rightarrow> string" where
  "not_found_message p =
     ''file '' @ [CHR 0x27] @ p @ [CHR 0x27] @ '' not found. Is ComputeCpp installed?''"

definition must_exist :: "path \<Rightarrow> world \<Rightarrow> (error + path) \<times> world" where
  "must_exist p w =
     (if \<not> path_exists w p then (Inl (VisionCppException (not_found_message p)), w)
      else (Inr p, w))"

definition check_for_computecpp :: "env \<Rightarrow> world \<Rightarrow> (error + unit) \<times> world" where
  "check_for_computecpp E w =
     and_then (must_exist (path_join3 (computecpp_prefix E) ''bin'' ''computecpp_info'') w) (\<lambda>_ w1.
     and_then (must_exist (path_join3 (computecpp_prefix E) ''bin'' ''compute++'') w1) (\<lambda>_ w2.
     and_then (must_exist (path_join3 (computecpp_prefix E) ''lib'' ''libComputeCpp.so'') w2) (\<lambda>_ w3.
       (Inr (), w3))))"

text \<open>The three files in the order in which \<open>check_for_computecpp\<close> looks for them.\<close>

definition required_files :: "env \<Rightarrow> path list" where
  "required_files E =
     [path_join3 (computecpp_prefix E) ''bin'' ''computecpp_info'',
      path_join3 (computecpp_prefix E) ''bin'' ''compute++'',
      path_join3 (computecpp_prefix E) ''lib'' ''libComputeCpp.so'']"

subsection \<open>The build pipeline\<close>

text \<open>The text that \<open>compile_cpp_code\<close> puts before the submitted source.\<close>

definition preamble :: string where
  "preamble =
     nl @ ''extern '' @ [CHR 0x22] @ ''C'' @ [CHR 0x22] @ '' {'' @ nl
     @ ''void test_add(float *a, float *b, float *c, long n) {'' @ nl
     @ ''  while (n--) {'' @ nl
     @ ''    *c++ = *a++ + *b++;'' @ nl
     @ ''  }'' @ nl
     @ ''}'' @ nl
     @ ''}'' @ nl
     @ ''    ''"

text \<open>The key under which a submitted source is looked up and stored, and what is compiled.\<close>

definition cache_key :: "string \<Rightarrow> string" where
  "cache_key src = preamble @ src"

text \<open>
  The local function \<^verbatim>\<open>progress\<close>; its counter, a one-entry dictionary in the source,
  is passed in and returned incremented. \<open>progress_text\<close> is the text it prints.
\<close>

definition progress_text :: "env \<Rightarrow> nat \<Rightarrow> string \<Rightarrow> string" where
  "progress_text E counter msg =
     (let text = (if msg \<noteq> [] then str_of_nat counter @ '': '' @ msg else []);
          ending = (if log_level E \<le> 20 then nl else [])
      in [CHR 0x0D, CHR 0x1B] @ ''[K '' @ text @ ending)"

definition progress :: "env \<Rightarrow> nat \<Rightarrow> string \<Rightarrow> world \<Rightarrow> nat \<times> world" where
  "progress E counter msg w = (counter + 1, emit (Stdout (progress_text E counter msg)) w)"

text \<open>
  The body of the \<^verbatim>\<open>try\<close> statement in two parts: the three stages with their progress
  messages (\<open>build_stages\<close>), then the store into the cache (\<open>try_body\<close>).
\<close>

definition build_stages :: "env \<Rightarrow> string \<Rightarrow> path \<Rightarrow> world \<Rightarrow> (error + path) \<times> world" where
  "build_stages E code tmpdir w =
     (let (c1, w1) = progress E 0 ''compiling device code ...'' w in
      and_then (stub_file E code tmpdir w1) (\<lambda>stub w2.
        let (c2, w3) = progress E c1 ''compiling host code ...'' w2 in
        and_then (host_compile E code stub tmpdir w3) (\<lambda>host w4.
          let (c3, w5) = progress E c2 ''linking executable ...'' w4 in
          and_then (link E host tmpdir w5) (\<lambda>tmpbin w6.
            let (c4, w7) = progress E c3 [] w6 in
            (Inr tmpbin, w7)))))"

definition try_body :: "env \<Rightarrow> string \<Rightarrow> path \<Rightarrow> world \<Rightarrow> (error + unit) \<times> world" where
  "try_body E code tmpdir w =
     and_then (build_stages E code tmpdir w) (\<lambda>tmpbin w1. fscache_setitem E code tmpbin w1)"

text \<open>\<^verbatim>\<open>if bincache.get(code)\<close>: \<^verbatim>\<open>None\<close> and the empty string count as false.\<close>

definition truthy :: "path option \<Rightarrow> bool" where
  "truthy r = (case r of None \<Rightarrow> False | Some p \<Rightarrow> p \<noteq> [])"

definition compile_cpp_code :: "env \<Rightarrow> string \<Rightarrow> world \<Rightarrow> (error + path) \<times> world" where
  "compile_cpp_code E src w =
     (let code = cache_key src;
          w0 = fscache_init E w
      in and_then
           (if truthy (fscache_get E code w0) then
              and_then (fscache_getitem E code w0) (\<lambda>p w1.
                (Inr (), logging_info E (''Found cached binary '' @ basename p) w1))
            else
              and_then (check_for_computecpp E w0) (\<lambda>_ w1.
              and_then (mkdtemp E w1) (\<lambda>tmpdir w2.
                case try_body E code tmpdir w2 of
                  (Inl e, w3) \<Rightarrow>
                    if is_Exception e
                    then and_then (rmtree tmpdir w3) (\<lambda>_ w4. (Inl e, w4))
                    else (Inl e, w3)
                | (Inr _, w3) \<Rightarrow> rmtree tmpdir w3)))
           (\<lambda>_ w5. fscache_getitem E code w5))"

subsection \<open>The runner\<close>

text \<open>
  A stage of a pipeline is an image (an operation with an input path), another operation,
  or an object that is no \<^verbatim>\<open>vp.Operation\<close>; the binary is a string or another object.
  The three checks of \<open>run\<close> are as in the source. What follows them is kept to its
  effects and to the calls that can fail: each image is read and shown, the binary is
  loaded, \<^verbatim>\<open>test_add\<close> is called, the result array and \<^verbatim>\<open>done\<close> are printed, and
  \<^verbatim>\<open>native_expression_tree\<close> is called.
\<close>

datatype stage = Image_stage path | OtherOperation | NotOperation

datatype pyobj = Str string | NotStr

fun is_Operation :: "stage \<Rightarrow> bool" where
  "is_Operation NotOperation = False"
| "is_Operation s = True"

fun image_inputs :: "stage list \<Rightarrow> path list" where
  "image_inputs [] = []"
| "image_inputs (Image_stage p # ss) = p # image_inputs ss"
| "image_inputs (s # ss) = image_inputs ss"

fun show_images :: "env \<Rightarrow> path list \<Rightarrow> world \<Rightarrow> (error + unit) \<times> world" where
  "show_images E [] w = (Inr (), w)"
| "show_images E (p # ps) w =
     (if imread_ok E p then show_images E ps (emit (ShowImage p) w)
      else (Inl OSError, w))"

definition run :: "env \<Rightarrow> stage list \<Rightarrow> pyobj \<Rightarrow> world \<Rightarrow> (error + unit) \<times> world" where
  "run E pipeline binary w =
     (if \<not> list_all is_Operation pipeline then (Inl TypeError, w)
      else case binary of
        NotStr \<Rightarrow> (Inl TypeError, w)
      | Str b \<Rightarrow>
          if \<not> (b \<noteq> [] \<and> path_exists w b) then (Inl ValueError, w)
          else
            and_then (show_images E (image_inputs pipeline) w) (\<lambda>_ w1.
              if \<not> load_ok E b then (Inl OSError, w1)
              else
                (Inr (),
                 emit (NativeCall ''native_expression_tree'')
                   (emit (Stdout (''done'' @ nl))
                     (emit (Stdout (test_add_output E @ nl))
                       (emit (NativeCall ''test_add'')
                         (emit (LoadLibrary b) w1)))))))"

subsection \<open>Reading a trace\<close>

text \<open>
  All processes of a trace, the runs of the compiler \<^verbatim>\<open>compute++\<close> in a trace (the calls
  of \<open>invoke_computecpp\<close> that started a process), the cache stores of a trace, and the
  compiler runs and cache stores together, in their order.
\<close>

fun is_spawn :: "event \<Rightarrow> bool" where
  "is_spawn (Spawn cmd inp) = True"
| "is_spawn e = False"

fun is_toolchain_call :: "env \<Rightarrow> event \<Rightarrow> bool" where
  "is_toolchain_call E (Spawn cmd inp) = (cmd \<noteq> [] \<and> hd cmd = computecpp E)"
| "is_toolchain_call E e = False"

fun is_cache_store :: "event \<Rightarrow> bool" where
  "is_cache_store (CacheStore k v) = True"
| "is_cache_store e = False"

definition spawns :: "event list \<Rightarrow> event list" where
  "spawns t = filter is_spawn t"

definition toolchain_calls :: "env \<Rightarrow> event list \<Rightarrow> event list" where
  "toolchain_calls E t = filter (is_toolchain_call E) t"

definition cache_stores :: "event list \<Rightarrow> event list" where
  "cache_stores t = filter is_cache_store t"

definition build_events :: "env \<Rightarrow> event list \<Rightarrow> event list" where
  "build_events E t = filter (\<lambda>e. is_toolchain_call E e \<or> is_cache_store e) t"

subsection \<open>A test double of the toolchain\<close>

text \<open>
  A stand-in for the external programs, for concrete runs: a command for which
  \<open>fails\<close> holds exits with the code \<open>rc\<close> and writes nothing; every other command
  exits with 0 and creates the files named after \<^verbatim>\<open>-o\<close>. Its standard output is
  \<open>out\<close> in both cases.
\<close>

fun output_paths :: "string list \<Rightarrow> path list" where
  "output_paths (a # b # r) =
     (if a = ''-o'' then b # output_paths r else output_paths (b # r))"
| "output_paths r = []"

definition fake_popen ::
  "(string list \<Rightarrow> bool) \<Rightarrow> int \<Rightarrow> string \<Rightarrow>
   string list \<Rightarrow> string option \<Rightarrow> path set \<Rightarrow> proc_result" where
  "fake_popen fails rc out cmd inp fs =
     (if fails cmd then Exited rc out ''failed'' fs
      else Exited 0 out [] (fs \<union> set (output_paths cmd)))"

definition fake_env :: "(string list \<Rightarrow> bool) \<Rightarrow> int \<Rightarrow> string \<Rightarrow> int \<Rightarrow> env" where
  "fake_env fails rc out level =
     \<lparr>computecpp_prefix = ''/opt/computecpp'',
      resource_include = ''/pkg/visioncpp/lib/include'',
      opencv_cflags = ''-I/usr/include/opencv'',
      opencv_libs = ''-lopencv_core'',
      log_level = level,
      cache_root = ''/home/u/.cache/visioncpp'',
      escape_key = (\<lambda>k. ''key'' @ str_of_nat (length k)),
      popen = fake_popen fails rc out,
      tmp_name = (\<lambda>fs. ''/tmp/visioncpp-a1b2c3''),
      imread_ok = (\<lambda>p. True),
      load_ok = (\<lambda>p. True),
      test_add_output = ''[  0.   2.   4.   6.   8.  10.  12.  14.  16.  18.]''\<rparr>"

definition never :: "string list \<Rightarrow> bool" where
  "never cmd = False"

text \<open>The commands of the link stage, and those of the first stage: they name an output and
  are neither the host compilation nor the link.\<close>

definition is_link :: "string list \<Rightarrow> bool" where
  "is_link cmd \<longleftrightarrow> ''-shared'' \<in> set cmd"

definition is_stub :: "string list \<Rightarrow> bool" where
  "is_stub cmd \<longleftrightarrow> ''-o'' \<in> set cmd \<and> ''-fPIC'' \<notin> set cmd \<and> ''-shared'' \<notin> set cmd"

text \<open>A file system that holds the three files of the toolchain and nothing else.\<close>

definition installed :: world where
  "installed =
     \<lparr>files = {''/opt/computecpp/bin/computecpp_info'',
               ''/opt/computecpp/bin/compute++'',
               ''/opt/computecpp/lib/libComputeCpp.so''},
      trace = []\<rparr>"

definition always :: "string list \<Rightarrow> bool" where
  "always cmd = True"

subsection \<open>Predicates for stating what a call adds to the trace\<close>

text \<open>
  \<open>adds E n w w'\<close>: the trace of \<open>w'\<close> is the trace of \<open>w\<close> followed by events among
  which there is no cache store and there are at most \<open>n\<close> runs of the compiler.
  \<open>stages_done E src w w'\<close>: the scratch directory was created, the three stages ran in it
  to their end, and the trace of \<open>w'\<close> is the trace after the stages followed by one
  store of the linked binary under the key of \<open>src\<close>.
\<close>

definition adds :: "env \<Rightarrow> nat \<Rightarrow> world \<Rightarrow> world \<Rightarrow> bool" where
  "adds E n w w' \<longleftrightarrow>
     (\<exists>ev. trace w' = trace w @ ev \<and> cache_stores ev = []
           \<and> length (toolchain_calls E ev) \<le> n)"

definition stages_done :: "env \<Rightarrow> string \<Rightarrow> world \<Rightarrow> world \<Rightarrow> bool" where
  "stages_done E src w w' \<longleftrightarrow>
     (\<exists>tmpdir w2 tmpbin w3.
        mkdtemp E (fscache_init E w) = (Inr tmpdir, w2)
        \<and> build_stages E (cache_key src) tmpdir w2 = (Inr tmpbin, w3)
        \<and> adds E 3 w w3
        \<and> trace w' = trace w3 @ [CacheStore (cache_key src) tmpbin])"

text \<open>
  The \<^verbatim>\<open>if\<close> statement of \<open>compile_cpp_code\<close> (reuse the cached binary or build one),
  that is, all of the function but its last line.
\<close>

definition cache_or_build :: "env \<Rightarrow> string \<Rightarrow> world \<Rightarrow> (error + unit) \<times> world" where
  "cache_or_build E src w =
     (let code = cache_key src;
          w0 = fscache_init E w
      in if truthy (fscache_get E code w0) then
           and_then (fscache_getitem E code w0) (\<lambda>p w1.
             (Inr (), logging_info E (''Found cached binary '' @ basename p) w1))
         else
           and_then (check_for_computecpp E w0) (\<lambda>_ w1.
           and_then (mkdtemp E w1) (\<lambda>tmpdir w2.
             case try_body E code tmpdir w2 of
               (Inl e, w3) \<Rightarrow>
                 if is_Exception e
                 then and_then (rmtree tmpdir w3) (\<lambda>_ w4. (Inl e, w4))
                 else (Inl e, w3)
             | (Inr _, w3) \<Rightarrow> rmtree tmpdir w3)))"

text \<open>
  The events of a build in which every stage succeeds, in order: for each stage its progress
  message, the log record and the run of the compiler (the first stage asks the device-info
  tool for the device flags \<open>flags\<close> before), and the last progress message. \<open>d1\<close>,
  \<open>d2\<close> and \<open>d3\<close> are the outputs of the stages.
\<close>

definition expected_build_trace ::
  "env \<Rightarrow> string \<Rightarrow> string list \<Rightarrow> path \<Rightarrow> path \<Rightarrow> path \<Rightarrow> event list" where
  "expected_build_trace E code flags d1 d2 d3 =
     [Stdout (progress_text E 0 ''compiling device code ...''),
      Spawn (device_info_cmd E) None]
     @ log_events E (join_sp (computecpp E # stub_args E flags d1))
     @ [Spawn (computecpp E # stub_args E flags d1) (Some code),
        Stdout (progress_text E 1 ''compiling host code ...'')]
     @ log_events E (join_sp (computecpp E # host_args E d1 d2))
     @ [Spawn (computecpp E # host_args E d1 d2) (Some code),
        Stdout (progress_text E 2 ''linking executable ...'')]
     @ log_events E (join_sp (computecpp E # link_args E d2 d3))
     @ [Spawn (computecpp E # link_args E d2 d3) None,
        Stdout (progress_text E 3 [])]"

section \<open>Basic facts\<close>

lemma and_then_Inl [simp]: "and_then (Inl e, w) f = (Inl e, w)"
  by (simp add: and_then_def)

lemma and_then_Inr [simp]: "and_then (Inr a, w) f = f a w"
  by (simp add: and_then_def)

lemma files_emit [simp]: "files (emit e w) = files w"
  by (simp add: emit_def)

lemma trace_emit [simp]: "trace (emit e w) = trace w @ [e]"
  by (simp add: emit_def)

lemma files_logging_info [simp]: "files (logging_info E m w) = files w"
  by (simp add: logging_info_def)

lemma trace_logging_info [simp]: "trace (logging_info E m w) = trace w @ log_events E m"
  by (simp add: logging_info_def)

lemma files_eprints [simp]: "files (eprints ts w) = files w"
  by (simp add: eprints_def)

lemma trace_eprints [simp]: "trace (eprints ts w) = trace w @ map Stderr ts"
  by (simp add: eprints_def)

lemma path_exists_emit [simp]: "path_exists (emit e w) p = path_exists w p"
  by (simp add: path_exists_def)

lemma path_exists_logging_info [simp]: "path_exists (logging_info E m w) p = path_exists w p"
  by (simp add: path_exists_def)

lemma trace_fscache_init [simp]: "trace (fscache_init E w) = trace w"
  by (simp add: fscache_init_def)

lemma check_for_computecpp_find:
  "check_for_computecpp E w =
     (case find (\<lambda>p. \<not> path_exists w p) (required_files E) of
        None \<Rightarrow> (Inr (), w)
      | Some p \<Rightarrow> (Inl (VisionCppException (not_found_message p)), w))"
  by (simp add: check_for_computecpp_def required_files_def must_exist_def)

subsection \<open>What a call adds to the trace\<close>

lemma toolchain_calls_append [simp]:
  "toolchain_calls E (a @ b) = toolchain_calls E a @ toolchain_calls E b"
  by (simp add: toolchain_calls_def)

lemma cache_stores_append [simp]: "cache_stores (a @ b) = cache_stores a @ cache_stores b"
  by (simp add: cache_stores_def)

lemma spawns_append [simp]: "spawns (a @ b) = spawns a @ spawns b"
  by (simp add: spawns_def)

lemma log_events_quiet [simp]:
  "toolchain_calls E (log_events E' m) = []" "cache_stores (log_events E' m) = []"
  "spawns (log_events E' m) = []"
  by (simp_all add: log_events_def toolchain_calls_def cache_stores_def spawns_def)

lemma stderr_quiet [simp]:
  "toolchain_calls E (map Stderr ts) = []" "cache_stores (map Stderr ts) = []"
  by (induction ts) (simp_all add: toolchain_calls_def cache_stores_def)

lemma single_event [simp]:
  "cache_stores [Spawn c i] = []" "cache_stores [Stdout t] = []"
  "toolchain_calls E [Stdout t] = []" "toolchain_calls E [CacheStore k v] = []"
  "length (toolchain_calls E [Spawn c i]) \<le> Suc 0"
  "cache_stores [CacheStore k v] = [CacheStore k v]"
  by (simp_all add: cache_stores_def toolchain_calls_def)

lemma device_info_not_toolchain [simp]: "hd (device_info_cmd E) \<noteq> computecpp E"
  by (simp add: device_info_cmd_def computecpp_def path_join3_def path_join_def)

lemma toolchain_calls_device_info [simp]:
  "toolchain_calls E [Spawn (device_info_cmd E) inp] = []"
  by (simp add: toolchain_calls_def)

lemma no_events [simp]: "cache_stores [] = []" "toolchain_calls E [] = []" "spawns [] = []"
  by (simp_all add: cache_stores_def toolchain_calls_def spawns_def)

lemma adds_refl [simp]: "adds E n w w"
  by (simp add: adds_def)

lemma adds_trans: "adds E n w w1 \<Longrightarrow> adds E m w1 w2 \<Longrightarrow> adds E (n + m) w w2"
  by (fastforce simp: adds_def)

lemma adds_le: "adds E n w w' \<Longrightarrow> n \<le> m \<Longrightarrow> adds E m w w'"
  by (fastforce simp: adds_def)

lemma adds_files: "adds E n w w1 \<Longrightarrow> adds E n w (w1\<lparr>files := fs\<rparr>)"
  by (simp add: adds_def)

lemma adds_eprints: "adds E n w w1 \<Longrightarrow> adds E n w (eprints ts w1)"
  by (auto simp: adds_def)

lemma adds_logging_info: "adds E n w w1 \<Longrightarrow> adds E n w (logging_info E' m w1)"
  by (auto simp: adds_def)

lemma adds_stdout: "adds E n w w1 \<Longrightarrow> adds E n w (emit (Stdout t) w1)"
  by (auto simp: adds_def)

lemma adds_spawn:
  assumes "adds E n w w1"
  shows "adds E (Suc n) w (emit (Spawn c i) w1)"
proof -
  from assms obtain ev where ev: "trace w1 = trace w @ ev" "cache_stores ev = []"
    "length (toolchain_calls E ev) \<le> n"
    by (auto simp: adds_def)
  from ev have "trace (emit (Spawn c i) w1) = trace w @ (ev @ [Spawn c i])
      \<and> cache_stores (ev @ [Spawn c i]) = []
      \<and> length (toolchain_calls E (ev @ [Spawn c i])) \<le> Suc n"
    by (auto simp: cache_stores_def toolchain_calls_def)
  then show ?thesis unfolding adds_def by blast
qed

lemma adds_device_info: "adds E n w w1 \<Longrightarrow> adds E n w (emit (Spawn (device_info_cmd E) i) w1)"
  by (auto simp: adds_def)

lemmas adds_intros =
  adds_files adds_eprints adds_logging_info adds_stdout

lemma adds_invoke:
  assumes "invoke_computecpp E args inp w = (r, w')"
  shows "adds E 1 w w'"
proof (cases "popen E (computecpp E # args) inp (files w)")
  case SpawnFailed
  with assms show ?thesis
    by (auto simp: invoke_computecpp_def Let_def intro!: adds_intros)
next
  case (Exited rc out err fs)
  have sp: "adds E (Suc 0) w
              (emit (Spawn (computecpp E # args) i)
                 (logging_info E (join_sp (computecpp E # args)) w))" for i
    by (intro adds_spawn adds_logging_info adds_refl)
  show ?thesis
  proof (cases "rc = 0")
    case True
    with assms Exited show ?thesis
      by (auto simp: invoke_computecpp_def Let_def intro!: adds_intros sp)
  next
    case False
    with assms Exited show ?thesis
      apply (simp add: invoke_computecpp_def Let_def split: sum.splits option.splits)
      apply (auto intro!: adds_intros sp)
      done
  qed
qed

lemma adds_device_cflags: "get_device_cflags E w = (r, w') \<Longrightarrow> adds E 0 w w'"
  by (auto simp: get_device_cflags_def Let_def
           split: proc_result.splits sum.splits
           intro!: adds_files adds_device_info)

lemma adds_progress: "progress E c m w = (c', w') \<Longrightarrow> adds E 0 w w'"
  by (auto simp: progress_def Let_def intro!: adds_stdout)

lemma and_then_cases:
  assumes "and_then m f = (r, w')"
  obtains (fail) e where "m = (Inl e, w')" "r = Inl e"
        | (ok) a w1 where "m = (Inr a, w1)" "f a w1 = (r, w')"
  using assms by (cases m; cases "fst m") (auto simp: and_then_def)

lemma adds_invoke_assert:
  assumes "and_then (invoke_computecpp E args inp w)
             (\<lambda>_ w1. if path_exists w1 dest then (Inr dest, w1) else (Inl AssertionError, w1))
           = (r, w')"
  shows "adds E 1 w w'"
  using assms
proof (cases rule: and_then_cases)
  case (fail e)
  then show ?thesis by (auto dest: adds_invoke)
next
  case (ok u w2)
  then show ?thesis by (auto dest: adds_invoke split: if_splits)
qed

lemma adds_stub_file:
  assumes "stub_file E code dir w = (r, w')"
  shows "adds E 1 w w'"
proof (cases "path_exists w (path_join dir ''stub.sycl'')")
  case True
  with assms show ?thesis by (simp add: stub_file_def)
next
  case False
  with assms have "and_then (get_device_cflags E w) (\<lambda>device_cflags w1.
      and_then (invoke_computecpp E (stub_args E device_cflags (path_join dir ''stub.sycl''))
                  (Some code) w1)
        (\<lambda>_ w2. if path_exists w2 (path_join dir ''stub.sycl'')
                 then (Inr (path_join dir ''stub.sycl''), w2)
                 else (Inl AssertionError, w2))) = (r, w')"
    by (simp add: stub_file_def Let_def)
  then show ?thesis
  proof (cases rule: and_then_cases)
    case (fail e)
    then show ?thesis by (auto dest!: adds_device_cflags intro: adds_le)
  next
    case (ok flags w1)
    from ok(1) have "adds E 0 w w1" by (rule adds_device_cflags)
    moreover from ok(2) have "adds E 1 w1 w'" by (rule adds_invoke_assert)
    ultimately show ?thesis using adds_trans by fastforce
  qed
qed

lemma adds_host_compile: "host_compile E code stub dir w = (r, w') \<Longrightarrow> adds E 1 w w'"
  unfolding host_compile_def Let_def
  by (auto split: if_splits dest: adds_invoke_assert)

lemma adds_link: "link E host dir w = (r, w') \<Longrightarrow> adds E 1 w w'"
  unfolding link_def Let_def
  by (auto split: if_splits dest: adds_invoke_assert)

lemma adds_trace_eq: "trace w' = trace w \<Longrightarrow> adds E n w w'"
  by (simp add: adds_def)

lemma adds_snd_progress: "adds E 0 w (snd (progress E c m w))"
  by (simp add: progress_def Let_def adds_stdout)

lemma fst_progress [simp]: "fst (progress E c m w) = Suc c"
  by (simp add: progress_def Let_def)

lemma build_stages_unfold:
  "build_stages E code dir w =
     and_then (stub_file E code dir (snd (progress E 0 ''compiling device code ...'' w)))
       (\<lambda>stub w2.
          and_then (host_compile E code stub dir
                      (snd (progress E (Suc 0) ''compiling host code ...'' w2)))
            (\<lambda>host w4.
               and_then (link E host dir
                           (snd (progress E (Suc (Suc 0)) ''linking executable ...'' w4)))
                 (\<lambda>tmpbin w6. (Inr tmpbin, snd (progress E (Suc (Suc (Suc 0))) [] w6)))))"
  by (simp add: build_stages_def Let_def split_beta)

lemma adds_step: "adds E n w w1 \<Longrightarrow> adds E 0 w1 w2 \<Longrightarrow> adds E n w w2"
  using adds_trans [of E n w w1 0 w2] by simp

lemma adds_stage: "adds E n w w1 \<Longrightarrow> adds E 1 w1 w2 \<Longrightarrow> adds E (Suc n) w w2"
  using adds_trans [of E n w w1 1 w2] by simp

lemma adds_build_stages:
  assumes "build_stages E code dir w = (r, w')"
  shows "adds E 3 w w'"
proof -
  have p1: "adds E 0 w (snd (progress E 0 ''compiling device code ...'' w))"
    by (rule adds_snd_progress)
  have "adds E (Suc (Suc (Suc 0))) w w'"
    using assms [unfolded build_stages_unfold]
  proof (cases rule: and_then_cases)
    case (fail e)
    from adds_stage [OF p1 adds_stub_file [OF fail(1)]] show ?thesis
      by (rule adds_le) simp
  next
    case (ok stub w2)
    have a3: "adds E (Suc 0) w (snd (progress E (Suc 0) ''compiling host code ...'' w2))"
      by (rule adds_step [OF adds_stage [OF p1 adds_stub_file [OF ok(1)]] adds_snd_progress])
    from ok(2) show ?thesis
    proof (cases rule: and_then_cases)
      case (fail e)
      from adds_stage [OF a3 adds_host_compile [OF fail(1)]] show ?thesis
        by (rule adds_le) simp
    next
      case (ok host w4)
      have a5: "adds E (Suc (Suc 0)) w
                  (snd (progress E (Suc (Suc 0)) ''linking executable ...'' w4))"
        by (rule adds_step [OF adds_stage [OF a3 adds_host_compile [OF ok(1)]]
                              adds_snd_progress])
      from ok(2) show ?thesis
      proof (cases rule: and_then_cases)
        case (fail e)
        from adds_stage [OF a5 adds_link [OF fail(1)]] show ?thesis .
      next
        case (ok tmpbin w6)
        from ok(2) have "w' = snd (progress E (Suc (Suc (Suc 0))) [] w6)" by simp
        with adds_step [OF adds_stage [OF a5 adds_link [OF ok(1)]] adds_snd_progress]
        show ?thesis by simp
      qed
    qed
  qed
  then show ?thesis by (simp add: numeral_3_eq_3)
qed

lemma rmtree_trace: "rmtree d w = (r, w') \<Longrightarrow> trace w' = trace w"
  by (auto simp: rmtree_def split: if_splits)

lemma mkdtemp_trace: "mkdtemp E w = (r, w') \<Longrightarrow> trace w' = trace w"
  by (auto simp: mkdtemp_def Let_def split: if_splits)

lemma fscache_getitem_world: "fscache_getitem E k w = (r, w') \<Longrightarrow> w' = w"
  by (auto simp: fscache_getitem_def split: if_splits)

lemma fscache_getitem_Inr:
  "fscache_getitem E k w = (Inr p, w') \<Longrightarrow> p = keypath E k \<and> path_exists w (keypath E k) \<and> w' = w"
  by (auto simp: fscache_getitem_def split: if_splits)

lemma check_for_computecpp_world: "check_for_computecpp E w = (r, w') \<Longrightarrow> w' = w"
  by (auto simp: check_for_computecpp_find split: option.splits)

lemma fscache_setitem_cases:
  assumes "fscache_setitem E k v w = (r, w')"
  obtains (missing) "r = Inl ValueError" "w' = w"
        | (stored) "r = Inr ()" "trace w' = trace w @ [CacheStore k v]" "path_exists w v"
  using assms by (auto simp: fscache_setitem_def split: if_splits)

lemma try_body_trace:
  assumes "try_body E code d w2 = (r, w3)"
  shows "adds E 3 w2 w3
         \<or> (\<exists>tmpbin w3'. build_stages E code d w2 = (Inr tmpbin, w3') \<and> adds E 3 w2 w3'
              \<and> r = Inr () \<and> trace w3 = trace w3' @ [CacheStore code tmpbin])"
  using assms unfolding try_body_def
proof (cases rule: and_then_cases)
  case (fail e)
  then show ?thesis by (auto dest: adds_build_stages)
next
  case (ok tmpbin w3')
  from ok(2) show ?thesis
  proof (cases rule: fscache_setitem_cases)
    case missing
    with ok(1) show ?thesis by (auto dest: adds_build_stages)
  next
    case stored
    with ok(1) show ?thesis by (auto dest: adds_build_stages)
  qed
qed

lemma compile_cpp_code_split:
  "compile_cpp_code E src w =
     and_then (cache_or_build E src w) (\<lambda>_ w5. fscache_getitem E (cache_key src) w5)"
  by (simp add: compile_cpp_code_def cache_or_build_def Let_def)

lemma cache_or_build_hit:
  assumes "path_exists (fscache_init E w) (keypath E (cache_key src))"
  shows "cache_or_build E src w =
           (Inr (),
            logging_info E (''Found cached binary '' @ basename (keypath E (cache_key src)))
              (fscache_init E w))"
  using assms
  by (simp add: cache_or_build_def Let_def truthy_def fscache_get_def fscache_contains_def
        fscache_getitem_def path_exists_def)

lemma cache_or_build_miss:
  assumes "\<not> truthy (fscache_get E (cache_key src) (fscache_init E w))"
  shows "cache_or_build E src w =
           and_then (check_for_computecpp E (fscache_init E w)) (\<lambda>_ w1.
           and_then (mkdtemp E w1) (\<lambda>tmpdir w2.
             case try_body E (cache_key src) tmpdir w2 of
               (Inl e, w3) \<Rightarrow>
                 if is_Exception e
                 then and_then (rmtree tmpdir w3) (\<lambda>_ w4. (Inl e, w4))
                 else (Inl e, w3)
             | (Inr _, w3) \<Rightarrow> rmtree tmpdir w3))"
  using assms by (simp add: cache_or_build_def Let_def)

lemma truthy_get:
  "truthy (fscache_get E k w) = path_exists w (keypath E k)"
  by (auto simp: truthy_def fscache_get_def fscache_contains_def path_exists_def)

lemma compile_cpp_code_hit:
  assumes "path_exists (fscache_init E w) (keypath E (cache_key src))"
  shows "compile_cpp_code E src w =
           (Inr (keypath E (cache_key src)),
            logging_info E (''Found cached binary '' @ basename (keypath E (cache_key src)))
              (fscache_init E w))"
  using assms
  by (simp add: compile_cpp_code_split cache_or_build_hit fscache_getitem_def)

lemma cache_or_build_trace:
  assumes "cache_or_build E src w = (r, w')"
  shows "adds E 3 w w' \<or> stages_done E src w w'"
proof (cases "path_exists (fscache_init E w) (keypath E (cache_key src))")
  case True
  from assms show ?thesis
    unfolding cache_or_build_hit [OF True]
    by (auto intro!: adds_trace_eq adds_logging_info)
next
  case False
  then have miss: "\<not> truthy (fscache_get E (cache_key src) (fscache_init E w))"
    by (simp add: truthy_get)
  from assms [unfolded cache_or_build_miss [OF miss]] show ?thesis
  proof (cases rule: and_then_cases)
    case (fail e)
    then show ?thesis by (auto dest!: check_for_computecpp_world intro!: adds_trace_eq)
  next
    case (ok u w1)
    then have w1: "w1 = fscache_init E w" by (auto dest: check_for_computecpp_world)
    from ok(2) show ?thesis
    proof (cases rule: and_then_cases)
      case (fail e)
      then show ?thesis using w1 by (auto dest!: mkdtemp_trace intro!: adds_trace_eq)
    next
      case (ok tmpdir w2)
      from ok(1) w1 have t2: "trace w2 = trace w" by (auto dest: mkdtemp_trace)
      obtain r3 w3 where tb: "try_body E (cache_key src) tmpdir w2 = (r3, w3)"
        by (cases "try_body E (cache_key src) tmpdir w2")
      from ok(2) tb have t': "trace w' = trace w3"
        by (auto split: sum.splits if_splits elim!: and_then_cases dest: rmtree_trace)
      from try_body_trace [OF tb] show ?thesis
      proof
        assume "adds E 3 w2 w3"
        with t2 t' have "adds E 3 w w'" by (simp add: adds_def)
        then show ?thesis ..
      next
        assume "\<exists>tmpbin w3'. build_stages E (cache_key src) tmpdir w2 = (Inr tmpbin, w3')
                  \<and> adds E 3 w2 w3' \<and> r3 = Inr ()
                  \<and> trace w3 = trace w3' @ [CacheStore (cache_key src) tmpbin]"
        then obtain tmpbin w3' where
          "build_stages E (cache_key src) tmpdir w2 = (Inr tmpbin, w3')"
          "adds E 3 w2 w3'" "trace w3 = trace w3' @ [CacheStore (cache_key src) tmpbin]"
          by blast
        with t2 t' ok(1) w1 have "stages_done E src w w'"
          unfolding stages_done_def adds_def by auto
        then show ?thesis ..
      qed
    qed
  qed
qed

lemma compile_cpp_code_trace:
  assumes "compile_cpp_code E src w = (r, w')"
  shows "adds E 3 w w' \<or> stages_done E src w w'"
  using assms [unfolded compile_cpp_code_split]
proof (cases rule: and_then_cases)
  case (fail e)
  from cache_or_build_trace [OF fail(1)] show ?thesis .
next
  case (ok u w5)
  from ok(2) have "w' = w5" by (rule fscache_getitem_world)
  with cache_or_build_trace [OF ok(1)] show ?thesis by simp
qed

lemma compile_cpp_code_Inr:
  assumes "compile_cpp_code E src w = (Inr p, w')"
  shows "p = keypath E (cache_key src) \<and> path_exists w' (keypath E (cache_key src))"
  using assms [unfolded compile_cpp_code_split]
proof (cases rule: and_then_cases)
  case (fail e)
  then show ?thesis by simp
next
  case (ok u w1)
  from fscache_getitem_Inr [OF ok(2)] show ?thesis by simp
qed

subsection \<open>Stages that succeed\<close>

lemma dir_sep_nonempty: "d \<noteq> [] \<Longrightarrow> dir_sep d \<noteq> []"
  by (simp add: dir_sep_def)

lemma path_join_name:
  "name \<noteq> [] \<Longrightarrow> hd name \<noteq> CHR ''/'' \<Longrightarrow> path_join d name = dir_sep d @ name"
  by (simp add: path_join_def)

lemma path_join_nonempty: "name \<noteq> [] \<Longrightarrow> path_join d name \<noteq> []"
  by (simp add: path_join_def)

lemma path_join_nonempty_left: "d \<noteq> [] \<Longrightarrow> path_join d name \<noteq> []"
  by (simp add: path_join_def dir_sep_def)

lemma within_path_join:
  "name \<noteq> [] \<Longrightarrow> hd name \<noteq> CHR ''/'' \<Longrightarrow> within d (path_join d name)"
  by (simp add: within_def path_join_name)

lemma path_join_not_dir:
  assumes "name \<noteq> []" "hd name \<noteq> CHR ''/''"
  shows "path_join d name \<noteq> d"
proof
  assume "path_join d name = d"
  with assms have "dir_sep d @ name = d" by (simp add: path_join_name)
  then have "length (dir_sep d @ name) = length d" by simp
  with assms(1) show False by (simp add: dir_sep_def split: if_splits)
qed

lemma within_self [simp]: "within d d"
  by (simp add: within_def)

lemma fresh_dir_not_exists:
  "fresh_dir d fs \<Longrightarrow> within d p \<Longrightarrow> p \<notin> fs"
  by (auto simp: fresh_dir_def)

lemma invoke_ok:
  assumes "popen E (computecpp E # args) inp (files w) = Exited 0 out err fs"
  shows "invoke_computecpp E args inp w =
           (Inr (), \<lparr>files = fs,
                     trace = trace w @ log_events E (join_sp (computecpp E # args))
                               @ [Spawn (computecpp E # args) inp]\<rparr>)"
  using assms by (simp add: invoke_computecpp_def Let_def emit_def logging_info_def)

lemma host_compile_run:
  assumes "\<not> path_exists w (path_join dir ''host.o'')"
    and "popen E (computecpp E # host_args E stub (path_join dir ''host.o'')) (Some code) (files w)
           = Exited 0 out err fs"
  shows "host_compile E code stub dir w =
           (if path_join dir ''host.o'' \<in> fs then Inr (path_join dir ''host.o'')
            else Inl AssertionError,
            \<lparr>files = fs,
             trace = trace w
               @ log_events E (join_sp (computecpp E # host_args E stub (path_join dir ''host.o'')))
               @ [Spawn (computecpp E # host_args E stub (path_join dir ''host.o'')) (Some code)]\<rparr>)"
  using assms
  by (simp add: host_compile_def Let_def invoke_ok path_exists_def path_join_nonempty)

lemma link_run:
  assumes "\<not> path_exists w (path_join dir ''visioncpp_native'')"
    and "popen E (computecpp E # link_args E host (path_join dir ''visioncpp_native'')) None (files w)
           = Exited 0 out err fs"
  shows "link E host dir w =
           (if path_join dir ''visioncpp_native'' \<in> fs then Inr (path_join dir ''visioncpp_native'')
            else Inl AssertionError,
            \<lparr>files = fs,
             trace = trace w
               @ log_events E (join_sp (computecpp E
                    # link_args E host (path_join dir ''visioncpp_native'')))
               @ [Spawn (computecpp E # link_args E host (path_join dir ''visioncpp_native''))
                    None]\<rparr>)"
  using assms
  by (simp add: link_def Let_def invoke_ok path_exists_def path_join_nonempty)

lemma device_cflags_run:
  assumes "popen E (device_info_cmd E) None (files w) = Exited rc out err fs"
    and "utf8_valid out"
  shows "get_device_cflags E w =
           (Inr (split_ws out),
            \<lparr>files = fs, trace = trace w @ [Spawn (device_info_cmd E) None]\<rparr>)"
  using assms by (simp add: get_device_cflags_def decode_utf8_def emit_def)

lemma stub_file_run:
  assumes "\<not> path_exists w (path_join dir ''stub.sycl'')"
    and "popen E (device_info_cmd E) None (files w) = Exited rc0 out0 err0 fs0"
    and "utf8_valid out0"
    and "popen E (computecpp E # stub_args E (split_ws out0) (path_join dir ''stub.sycl''))
           (Some code) fs0 = Exited 0 out err fs"
  shows "stub_file E code dir w =
           (if path_join dir ''stub.sycl'' \<in> fs then Inr (path_join dir ''stub.sycl'')
            else Inl AssertionError,
            \<lparr>files = fs,
             trace = trace w @ [Spawn (device_info_cmd E) None]
               @ log_events E (join_sp (computecpp E
                    # stub_args E (split_ws out0) (path_join dir ''stub.sycl'')))
               @ [Spawn (computecpp E # stub_args E (split_ws out0) (path_join dir ''stub.sycl''))
                    (Some code)]\<rparr>)"
  using assms
  by (simp add: stub_file_def Let_def device_cflags_run invoke_ok path_exists_def
        path_join_nonempty)

lemma snd_progress [simp]:
  "snd (progress E c m w) = w\<lparr>trace := trace w @ [Stdout (progress_text E c m)]\<rparr>"
  by (simp add: progress_def emit_def)

lemma build_stages_ok:
  assumes d: "d1 = path_join dir ''stub.sycl''" "d2 = path_join dir ''host.o''"
      "d3 = path_join dir ''visioncpp_native''"
    and n1: "d1 \<notin> files w"
    and devinfo: "popen E (device_info_cmd E) None (files w) = Exited rc0 out0 err0 fs0"
      "utf8_valid out0"
    and stub: "popen E (computecpp E # stub_args E (split_ws out0) d1) (Some code) fs0
                = Exited 0 o1 e1 fs1" "d1 \<in> fs1"
    and host: "d2 \<notin> fs1"
      "popen E (computecpp E # host_args E d1 d2) (Some code) fs1 = Exited 0 o2 e2 fs2"
      "d2 \<in> fs2"
    and link: "d3 \<notin> fs2"
      "popen E (computecpp E # link_args E d2 d3) None fs2 = Exited 0 o3 e3 fs3"
      "d3 \<in> fs3"
  shows "build_stages E code dir w =
           (Inr d3, \<lparr>files = fs3,
                     trace = trace w @ expected_build_trace E code (split_ws out0) d1 d2 d3\<rparr>)"
proof -
  let ?w1 = "snd (progress E 0 ''compiling device code ...'' w)"
  have s1: "stub_file E code dir ?w1 =
      (Inr d1, \<lparr>files = fs1,
         trace = trace ?w1 @ [Spawn (device_info_cmd E) None]
               @ log_events E (join_sp (computecpp E # stub_args E (split_ws out0) d1))
               @ [Spawn (computecpp E # stub_args E (split_ws out0) d1) (Some code)]\<rparr>)"
    (is "_ = (_, ?w2)")
    using stub_file_run [of ?w1 dir E rc0 out0 err0 fs0 code o1 e1 fs1] n1 devinfo stub
    by (simp add: d path_exists_def)
  let ?w3 = "snd (progress E (Suc 0) ''compiling host code ...'' ?w2)"
  have s2: "host_compile E code d1 dir ?w3 =
      (Inr d2, \<lparr>files = fs2,
         trace = trace ?w3 @ log_events E (join_sp (computecpp E # host_args E d1 d2))
               @ [Spawn (computecpp E # host_args E d1 d2) (Some code)]\<rparr>)"
    (is "_ = (_, ?w4)")
    using host_compile_run [of ?w3 dir E d1 code o2 e2 fs2] host
    by (simp add: d path_exists_def)
  let ?w5 = "snd (progress E (Suc (Suc 0)) ''linking executable ...'' ?w4)"
  have s3: "link E d2 dir ?w5 =
      (Inr d3, \<lparr>files = fs3,
         trace = trace ?w5 @ log_events E (join_sp (computecpp E # link_args E d2 d3))
               @ [Spawn (computecpp E # link_args E d2 d3) None]\<rparr>)"
    (is "_ = (_, ?w6)")
    using link_run [of ?w5 dir E d2 o3 e3 fs3] link
    by (simp add: d path_exists_def)
  have "build_stages E code dir w = (Inr d3, snd (progress E (Suc (Suc (Suc 0))) [] ?w6))"
    unfolding build_stages_unfold s1 and_then_Inr s2 s3 ..
  also have "snd (progress E (Suc (Suc (Suc 0))) [] ?w6) =
     \<lparr>files = fs3, trace = trace w @ expected_build_trace E code (split_ws out0) d1 d2 d3\<rparr>"
    by (simp add: expected_build_trace_def numeral_2_eq_2 numeral_3_eq_3)
  finally show ?thesis .
qed

lemma invoke_exit:
  assumes "popen E (computecpp E # args) inp (files w) = Exited rc out err fs"
    and "rc \<noteq> 0" and "utf8_valid out" and "utf8_valid err"
  shows "fst (invoke_computecpp E args inp w) = Inl (SystemExit rc)"
  using assms by (simp add: invoke_computecpp_def decode_utf8_def Let_def)

lemma link_exit:
  assumes "\<not> path_exists w (path_join dir ''visioncpp_native'')"
    and "popen E (computecpp E # link_args E host (path_join dir ''visioncpp_native'')) None (files w)
           = Exited rc out err fs"
    and "rc \<noteq> 0" and "utf8_valid out" and "utf8_valid err"
  shows "fst (link E host dir w) = Inl (SystemExit rc)"
proof -
  from invoke_exit [OF assms(2-5)] obtain w' where
    "invoke_computecpp E (link_args E host (path_join dir ''visioncpp_native'')) None w
       = (Inl (SystemExit rc), w')"
    by (cases "invoke_computecpp E (link_args E host (path_join dir ''visioncpp_native'')) None w")
       simp
  with assms(1) show ?thesis by (simp add: link_def Let_def)
qed

lemma build_stages_link_exit:
  assumes d: "d1 = path_join dir ''stub.sycl''" "d2 = path_join dir ''host.o''"
      "d3 = path_join dir ''visioncpp_native''"
    and n1: "d1 \<notin> files w"
    and devinfo: "popen E (device_info_cmd E) None (files w) = Exited rc0 out0 err0 fs0"
      "utf8_valid out0"
    and stub: "popen E (computecpp E # stub_args E (split_ws out0) d1) (Some code) fs0
                = Exited 0 o1 e1 fs1" "d1 \<in> fs1"
    and host: "d2 \<notin> fs1"
      "popen E (computecpp E # host_args E d1 d2) (Some code) fs1 = Exited 0 o2 e2 fs2"
      "d2 \<in> fs2"
    and link: "d3 \<notin> fs2"
      "popen E (computecpp E # link_args E d2 d3) None fs2 = Exited rc o3 e3 fs3"
      "rc \<noteq> 0" "utf8_valid o3" "utf8_valid e3"
  shows "fst (build_stages E code dir w) = Inl (SystemExit rc)"
proof -
  let ?w1 = "snd (progress E 0 ''compiling device code ...'' w)"
  have s1: "stub_file E code dir ?w1 =
      (Inr d1, \<lparr>files = fs1,
         trace = trace ?w1 @ [Spawn (device_info_cmd E) None]
               @ log_events E (join_sp (computecpp E # stub_args E (split_ws out0) d1))
               @ [Spawn (computecpp E # stub_args E (split_ws out0) d1) (Some code)]\<rparr>)"
    (is "_ = (_, ?w2)")
    using stub_file_run [of ?w1 dir E rc0 out0 err0 fs0 code o1 e1 fs1] n1 devinfo stub
    by (simp add: d path_exists_def)
  let ?w3 = "snd (progress E (Suc 0) ''compiling host code ...'' ?w2)"
  have s2: "host_compile E code d1 dir ?w3 =
      (Inr d2, \<lparr>files = fs2,
         trace = trace ?w3 @ log_events E (join_sp (computecpp E # host_args E d1 d2))
               @ [Spawn (computecpp E # host_args E d1 d2) (Some code)]\<rparr>)"
    (is "_ = (_, ?w4)")
    using host_compile_run [of ?w3 dir E d1 code o2 e2 fs2] host
    by (simp add: d path_exists_def)
  let ?w5 = "snd (progress E (Suc (Suc 0)) ''linking executable ...'' ?w4)"
  have "fst (link E d2 dir ?w5) = Inl (SystemExit rc)"
    using link_exit [of ?w5 dir E d2 rc o3 e3 fs3] link
    by (simp add: d path_exists_def)
  then obtain w6 where s3: "link E d2 dir ?w5 = (Inl (SystemExit rc), w6)"
    by (cases "link E d2 dir ?w5") simp
  show ?thesis
    unfolding build_stages_unfold s1 and_then_Inr s2 s3 and_then_Inl by simp
qed

lemma check_for_computecpp_ok:
  assumes "\<forall>p\<in>set (required_files E). path_exists w p"
  shows "check_for_computecpp E w = (Inr (), w)"
proof -
  from assms have "find (\<lambda>p. \<not> path_exists w p) (required_files E) = None"
    by (simp add: find_None_iff)
  then show ?thesis by (simp add: check_for_computecpp_find)
qed

lemma mkdtemp_ok:
  assumes "fresh_dir (tmp_name E (files w)) (files w)"
  shows "mkdtemp E w = (Inr (tmp_name E (files w)),
                        w\<lparr>files := insert (tmp_name E (files w)) (files w)\<rparr>)"
  using assms by (simp add: mkdtemp_def Let_def)

lemma stage_names [simp]:
  "''stub.sycl'' \<noteq> []" "hd ''stub.sycl'' \<noteq> CHR ''/''"
  "''host.o'' \<noteq> []" "hd ''host.o'' \<noteq> CHR ''/''"
  "''visioncpp_native'' \<noteq> []" "hd ''visioncpp_native'' \<noteq> CHR ''/''"
  by simp_all

lemma compile_success:
  assumes code: "code = cache_key src" and kp: "kp = keypath E code"
    and w0: "w0 = fscache_init E w"
    and miss: "\<not> path_exists w0 kp"
    and inst: "\<forall>p\<in>set (required_files E). path_exists w0 p"
    and tmp: "tmp = tmp_name E (files w0)" and fresh: "fresh_dir tmp (files w0)"
    and d: "d1 = path_join tmp ''stub.sycl''" "d2 = path_join tmp ''host.o''"
      "d3 = path_join tmp ''visioncpp_native''"
    and devinfo: "popen E (device_info_cmd E) None (insert tmp (files w0))
                    = Exited rc0 out0 err0 fs0"
      "utf8_valid out0"
    and stub: "popen E (computecpp E # stub_args E (split_ws out0) d1) (Some code) fs0
                = Exited 0 o1 e1 fs1" "d1 \<in> fs1"
    and host: "d2 \<notin> fs1"
      "popen E (computecpp E # host_args E d1 d2) (Some code) fs1 = Exited 0 o2 e2 fs2"
      "d2 \<in> fs2"
    and link: "d3 \<notin> fs2"
      "popen E (computecpp E # link_args E d2 d3) None fs2 = Exited 0 o3 e3 fs3"
      "d3 \<in> fs3"
    and keep: "tmp \<in> fs3"
    and root: "cache_root E \<noteq> []" and outside: "\<not> within tmp kp"
  shows "compile_cpp_code E src w =
           (Inr kp,
            \<lparr>files = {p \<in> insert kp (insert (cache_root E) fs3 - {d3}). \<not> within tmp p},
             trace = trace w @ expected_build_trace E code (split_ws out0) d1 d2 d3
                       @ [CacheStore code d3]\<rparr>)"
proof -
  from miss have m: "\<not> truthy (fscache_get E (cache_key src) (fscache_init E w))"
    by (simp add: truthy_get code kp w0)
  have chk: "check_for_computecpp E w0 = (Inr (), w0)"
    by (rule check_for_computecpp_ok [OF inst])
  have mk: "mkdtemp E w0 = (Inr tmp, w0\<lparr>files := insert tmp (files w0)\<rparr>)"
    using mkdtemp_ok [of E w0] fresh by (simp add: tmp)
  let ?w2 = "w0\<lparr>files := insert tmp (files w0)\<rparr>"
  have tne: "tmp \<noteq> []" using fresh by (simp add: fresh_dir_def)
  have "within tmp d1" by (simp add: d within_path_join)
  with fresh have "d1 \<notin> files w0" by (rule fresh_dir_not_exists)
  moreover have "d1 \<noteq> tmp" by (simp add: d path_join_not_dir)
  ultimately have n1: "d1 \<notin> files ?w2" by simp
  have bs: "build_stages E code tmp ?w2 =
      (Inr d3, \<lparr>files = fs3,
                trace = trace ?w2 @ expected_build_trace E code (split_ws out0) d1 d2 d3\<rparr>)"
    (is "_ = (_, ?w3)")
    by (rule build_stages_ok [OF d n1 _ devinfo(2) stub host link])
       (simp add: devinfo(1))
  have tw: "trace w0 = trace w" by (simp add: w0)
  have d3ne: "d3 \<noteq> []" by (simp add: d path_join_nonempty)
  have d3tmp: "d3 \<noteq> tmp" by (simp add: d path_join_not_dir)
  have kpne: "kp \<noteq> []" using root by (simp add: kp keypath_def path_join_nonempty_left)
  have tb: "try_body E code tmp ?w2 =
      (Inr (), \<lparr>files = insert kp (insert (cache_root E) fs3 - {d3}),
                trace = trace w @ expected_build_trace E code (split_ws out0) d1 d2 d3
                          @ [CacheStore code d3]\<rparr>)"
    (is "_ = (_, ?w4)")
    using link(3) d3ne
    by (simp add: try_body_def bs fscache_setitem_def path_exists_def emit_def kp tw)
  have rm: "rmtree tmp ?w4 =
      (Inr (), \<lparr>files = {p \<in> insert kp (insert (cache_root E) fs3 - {d3}). \<not> within tmp p},
                trace = trace w @ expected_build_trace E code (split_ws out0) d1 d2 d3
                          @ [CacheStore code d3]\<rparr>)"
    (is "_ = (_, ?w5)")
    using keep tne d3tmp by (simp add: rmtree_def path_exists_def)
  have cb: "cache_or_build E src w = (Inr (), ?w5)"
    unfolding cache_or_build_miss [OF m] 
    by (simp add: chk [unfolded w0] mk [unfolded w0] tb [unfolded w0 code] rm [unfolded code]
          code)
  have "fscache_getitem E code ?w5 = (Inr kp, ?w5)"
    using kpne outside by (simp add: fscache_getitem_def path_exists_def kp)
  then show ?thesis
    by (simp add: compile_cpp_code_split cb code)
qed

lemma trace_bound:
  assumes "adds E 3 w w' \<or> stages_done E src w w'"
  shows "\<exists>ev. trace w' = trace w @ ev \<and> length (toolchain_calls E ev) \<le> 3"
  using assms
proof
  assume "adds E 3 w w'"
  then show ?thesis by (auto simp: adds_def)
next
  assume "stages_done E src w w'"
  then obtain tmpbin w3 where a: "adds E 3 w w3"
    "trace w' = trace w3 @ [CacheStore (cache_key src) tmpbin]"
    unfolding stages_done_def by blast
  from a(1) obtain ev where ev: "trace w3 = trace w @ ev" "length (toolchain_calls E ev) \<le> 3"
    unfolding adds_def by blast
  with a(2) have "trace w' = trace w @ (ev @ [CacheStore (cache_key src) tmpbin])
     \<and> length (toolchain_calls E (ev @ [CacheStore (cache_key src) tmpbin])) \<le> 3"
    by simp
  then show ?thesis by blast
qed

lemma stores_cases:
  assumes "adds E 3 w w' \<or> stages_done E src w w'"
  shows "cache_stores (trace w') = cache_stores (trace w)
         \<or> (\<exists>tmpdir w2 tmpbin w3.
               mkdtemp E (fscache_init E w) = (Inr tmpdir, w2)
               \<and> build_stages E (cache_key src) tmpdir w2 = (Inr tmpbin, w3)
               \<and> cache_stores (trace w')
                   = cache_stores (trace w) @ [CacheStore (cache_key src) tmpbin])"
  using assms
proof
  assume "adds E 3 w w'"
  then show ?thesis by (auto simp: adds_def)
next
  assume "stages_done E src w w'"
  then obtain tmpdir w2 tmpbin w3 where
    a: "mkdtemp E (fscache_init E w) = (Inr tmpdir, w2)"
       "build_stages E (cache_key src) tmpdir w2 = (Inr tmpbin, w3)"
       "adds E 3 w w3" "trace w' = trace w3 @ [CacheStore (cache_key src) tmpbin]"
    unfolding stages_done_def by blast
  from a(3,4) have "cache_stores (trace w')
                   = cache_stores (trace w) @ [CacheStore (cache_key src) tmpbin]"
    by (auto simp: adds_def)
  with a(1,2) show ?thesis by blast
qed

lemma build_events_append [simp]:
  "build_events E (a @ b) = build_events E a @ build_events E b"
  by (simp add: build_events_def)

lemma build_events_log [simp]: "build_events E (log_events E' m) = []"
  by (simp add: build_events_def log_events_def)

lemma build_events_expected:
  "build_events E (expected_build_trace E code flags d1 d2 d3) =
     [Spawn (computecpp E # stub_args E flags d1) (Some code),
      Spawn (computecpp E # host_args E d1 d2) (Some code),
      Spawn (computecpp E # link_args E d2 d3) None]"
  by (simp add: expected_build_trace_def build_events_def log_events_def)

lemma suffix_path_join:
  "name \<noteq> [] \<Longrightarrow> hd name \<noteq> CHR ''/'' \<Longrightarrow> suffix name (path_join d name)"
  by (simp add: path_join_name suffix_def)

subsection \<open>The test double at work\<close>

lemma fake_env_sel [simp]:
  "computecpp_prefix (fake_env f rc out lv) = ''/opt/computecpp''"
  "resource_include (fake_env f rc out lv) = ''/pkg/visioncpp/lib/include''"
  "opencv_cflags (fake_env f rc out lv) = ''-I/usr/include/opencv''"
  "opencv_libs (fake_env f rc out lv) = ''-lopencv_core''"
  "log_level (fake_env f rc out lv) = lv"
  "cache_root (fake_env f rc out lv) = ''/home/u/.cache/visioncpp''"
  "popen (fake_env f rc out lv) = fake_popen f rc out"
  "tmp_name (fake_env f rc out lv) fs = ''/tmp/visioncpp-a1b2c3''"
  by (simp_all add: fake_env_def)

lemma fake_keypath:
  "keypath (fake_env f rc out lv) (cache_key ''int x = 1;'') = ''/home/u/.cache/visioncpp/key130''"
  by (simp add: keypath_def cache_key_def preamble_def nl_def fake_env_def path_join_def
        dir_sep_def digit_def)

lemma fake_paths:
  "computecpp (fake_env f rc out lv) = ''/opt/computecpp/bin/compute++''"
  "device_info_cmd (fake_env f rc out lv)
     = [''/opt/computecpp/bin/computecpp_info'', ''--dump-device-compiler-flags'']"
  "required_files (fake_env f rc out lv)
     = [''/opt/computecpp/bin/computecpp_info'', ''/opt/computecpp/bin/compute++'',
        ''/opt/computecpp/lib/libComputeCpp.so'']"
  "path_join ''/tmp/visioncpp-a1b2c3'' ''stub.sycl'' = ''/tmp/visioncpp-a1b2c3/stub.sycl''"
  "path_join ''/tmp/visioncpp-a1b2c3'' ''host.o'' = ''/tmp/visioncpp-a1b2c3/host.o''"
  "path_join ''/tmp/visioncpp-a1b2c3'' ''visioncpp_native''
     = ''/tmp/visioncpp-a1b2c3/visioncpp_native''"
  by (simp_all add: computecpp_def device_info_cmd_def required_files_def path_join3_def
        path_join_def dir_sep_def)

lemma fake_args:
  "stub_args (fake_env f rc out lv) [] ''/tmp/visioncpp-a1b2c3/stub.sycl''
     = [''-x'', ''c++'', ''-std=c++11'', ''-D_GLIBCXX_USE_CXX11_ABI=0'',
        ''-I/opt/computecpp/include'', ''-I/pkg/visioncpp/lib/include'',
        ''-I/usr/include/opencv'', ''-c'', ''-'', ''-o'', ''/tmp/visioncpp-a1b2c3/stub.sycl'']"
  "host_args (fake_env f rc out lv) ''/tmp/visioncpp-a1b2c3/stub.sycl''
       ''/tmp/visioncpp-a1b2c3/host.o''
     = [''-x'', ''c++'', ''-std=c++11'', ''-D_GLIBCXX_USE_CXX11_ABI=0'',
        ''-I/opt/computecpp/include'', ''-I/pkg/visioncpp/lib/include'',
        ''-I/usr/include/opencv'', ''-c'', ''-'', ''-fPIC'', ''-include'',
        ''/tmp/visioncpp-a1b2c3/stub.sycl'', ''-o'', ''/tmp/visioncpp-a1b2c3/host.o'']"
  "link_args (fake_env f rc out lv) ''/tmp/visioncpp-a1b2c3/host.o''
       ''/tmp/visioncpp-a1b2c3/visioncpp_native''
     = [''-std=c++11'', ''-shared'', ''-Wl,-soname,visioncpp_native.so'',
        ''-Wl,-rpath=/opt/computecpp/lib'', ''/tmp/visioncpp-a1b2c3/host.o'',
        ''-o'', ''/tmp/visioncpp-a1b2c3/visioncpp_native'',
        ''-lopencv_core'', ''-L/opt/computecpp/lib'', ''-lComputeCpp'', ''-lpthread'']"
  by (simp_all add: stub_args_def host_args_def link_args_def get_host_cflags_def
        get_ldflags_def split_ws_def path_join_def dir_sep_def)

lemma fake_runs:
  "fake_popen never rc out [''/opt/computecpp/bin/computecpp_info'', ''--dump-device-compiler-flags'']
     inp fs = Exited 0 out [] fs"
  "fake_popen never rc out (''/opt/computecpp/bin/compute++''
       # stub_args (fake_env f rc' out' lv) [] ''/tmp/visioncpp-a1b2c3/stub.sycl'') inp fs
     = Exited 0 out [] (insert ''/tmp/visioncpp-a1b2c3/stub.sycl'' fs)"
  "fake_popen never rc out (''/opt/computecpp/bin/compute++''
       # host_args (fake_env f rc' out' lv) ''/tmp/visioncpp-a1b2c3/stub.sycl''
           ''/tmp/visioncpp-a1b2c3/host.o'') inp fs
     = Exited 0 out [] (insert ''/tmp/visioncpp-a1b2c3/host.o'' fs)"
  "fake_popen never rc out (''/opt/computecpp/bin/compute++''
       # link_args (fake_env f rc' out' lv) ''/tmp/visioncpp-a1b2c3/host.o''
           ''/tmp/visioncpp-a1b2c3/visioncpp_native'') inp fs
     = Exited 0 out [] (insert ''/tmp/visioncpp-a1b2c3/visioncpp_native'' fs)"
  by (simp_all add: fake_popen_def never_def fake_args)

lemma fake_runs_link:
  "fake_popen is_link rc out [''/opt/computecpp/bin/computecpp_info'', ''--dump-device-compiler-flags'']
     inp fs = Exited 0 out [] fs"
  "fake_popen is_link rc out (''/opt/computecpp/bin/compute++''
       # stub_args (fake_env f rc' out' lv) [] ''/tmp/visioncpp-a1b2c3/stub.sycl'') inp fs
     = Exited 0 out [] (insert ''/tmp/visioncpp-a1b2c3/stub.sycl'' fs)"
  "fake_popen is_link rc out (''/opt/computecpp/bin/compute++''
       # host_args (fake_env f rc' out' lv) ''/tmp/visioncpp-a1b2c3/stub.sycl''
           ''/tmp/visioncpp-a1b2c3/host.o'') inp fs
     = Exited 0 out [] (insert ''/tmp/visioncpp-a1b2c3/host.o'' fs)"
  "fake_popen is_link rc out (''/opt/computecpp/bin/compute++''
       # link_args (fake_env f rc' out' lv) ''/tmp/visioncpp-a1b2c3/host.o''
           ''/tmp/visioncpp-a1b2c3/visioncpp_native'') inp fs
     = Exited rc out ''failed'' fs"
  by (simp_all add: fake_popen_def is_link_def fake_args)

lemma fake_files0:
  "files (fscache_init (fake_env f rc out lv) installed)
     = {''/home/u/.cache/visioncpp'', ''/opt/computecpp/bin/computecpp_info'',
        ''/opt/computecpp/bin/compute++'', ''/opt/computecpp/lib/libComputeCpp.so''}"
  by (simp add: fscache_init_def installed_def)

lemma fake_fresh:
  "fresh_dir ''/tmp/visioncpp-a1b2c3''
     {''/home/u/.cache/visioncpp'', ''/opt/computecpp/bin/computecpp_info'',
      ''/opt/computecpp/bin/compute++'', ''/opt/computecpp/lib/libComputeCpp.so''}"
  by (simp add: fresh_dir_def within_def dir_sep_def)

lemma fake_installed:
  "path_exists (fscache_init (fake_env f rc out lv) installed)
     ''/opt/computecpp/bin/computecpp_info''"
  "path_exists (fscache_init (fake_env f rc out lv) installed) ''/opt/computecpp/bin/compute++''"
  "path_exists (fscache_init (fake_env f rc out lv) installed)
     ''/opt/computecpp/lib/libComputeCpp.so''"
  by (simp_all add: path_exists_def fake_files0)

lemma fake_miss:
  "\<not> path_exists (fscache_init (fake_env f rc out lv) installed)
       ''/home/u/.cache/visioncpp/key130''"
  by (simp add: path_exists_def fake_files0)

lemma fake_outside:
  "\<not> within ''/tmp/visioncpp-a1b2c3'' ''/home/u/.cache/visioncpp/key130''"
  by (simp add: within_def dir_sep_def)

lemmas fake_facts =
  fake_keypath fake_paths fake_runs fake_files0 fake_fresh fake_installed fake_miss
  fake_outside

lemma within_literals:
  "within ''/tmp/visioncpp-a1b2c3'' ''/tmp/visioncpp-a1b2c3''"
  "within ''/tmp/visioncpp-a1b2c3'' ''/tmp/visioncpp-a1b2c3/stub.sycl''"
  "within ''/tmp/visioncpp-a1b2c3'' ''/tmp/visioncpp-a1b2c3/host.o''"
  "within ''/tmp/visioncpp-a1b2c3'' ''/tmp/visioncpp-a1b2c3/visioncpp_native''"
  "\<not> within ''/tmp/visioncpp-a1b2c3'' ''/home/u/.cache/visioncpp/key130''"
  "\<not> within ''/tmp/visioncpp-a1b2c3'' ''/home/u/.cache/visioncpp''"
  "\<not> within ''/tmp/visioncpp-a1b2c3'' ''/opt/computecpp/bin/computecpp_info''"
  "\<not> within ''/tmp/visioncpp-a1b2c3'' ''/opt/computecpp/bin/compute++''"
  "\<not> within ''/tmp/visioncpp-a1b2c3'' ''/opt/computecpp/lib/libComputeCpp.so''"
  by (simp_all add: within_def dir_sep_def)

lemma fake_build:
  "compile_cpp_code (fake_env never 0 [] 30) ''int x = 1;'' installed =
     (Inr ''/home/u/.cache/visioncpp/key130'',
      \<lparr>files = {''/home/u/.cache/visioncpp/key130'', ''/home/u/.cache/visioncpp'',
                ''/opt/computecpp/bin/computecpp_info'', ''/opt/computecpp/bin/compute++'',
                ''/opt/computecpp/lib/libComputeCpp.so''},
       trace = expected_build_trace (fake_env never 0 [] 30) (cache_key ''int x = 1;'') []
                 ''/tmp/visioncpp-a1b2c3/stub.sycl'' ''/tmp/visioncpp-a1b2c3/host.o''
                 ''/tmp/visioncpp-a1b2c3/visioncpp_native''
               @ [CacheStore (cache_key ''int x = 1;'')
                    ''/tmp/visioncpp-a1b2c3/visioncpp_native'']\<rparr>)"
proof -
  let ?E = "fake_env never 0 [] 30"
  let ?w0 = "fscache_init ?E installed"
  let ?tmp = "''/tmp/visioncpp-a1b2c3''"
  let ?d1 = "''/tmp/visioncpp-a1b2c3/stub.sycl''"
  let ?d2 = "''/tmp/visioncpp-a1b2c3/host.o''"
  let ?d3 = "''/tmp/visioncpp-a1b2c3/visioncpp_native''"
  let ?fs0 = "insert ?tmp (files ?w0)"
  have files0: "files ?w0 = {''/home/u/.cache/visioncpp'',
                ''/opt/computecpp/bin/computecpp_info'', ''/opt/computecpp/bin/compute++'',
                ''/opt/computecpp/lib/libComputeCpp.so''}"
    by (simp add: fscache_init_def installed_def)
  have "compile_cpp_code ?E ''int x = 1;'' installed =
     (Inr (keypath ?E (cache_key ''int x = 1;'')),
      \<lparr>files = {p \<in> insert (keypath ?E (cache_key ''int x = 1;''))
                       (insert (cache_root ?E) (insert ?d3 (insert ?d2 (insert ?d1 ?fs0)))
                        - {?d3}).
                 \<not> within ?tmp p},
       trace = trace installed
               @ expected_build_trace ?E (cache_key ''int x = 1;'') (split_ws []) ?d1 ?d2 ?d3
               @ [CacheStore (cache_key ''int x = 1;'') ?d3]\<rparr>)"
    by (rule compile_success [where ?w0.0 = ?w0 and tmp = ?tmp and ?fs0.0 = ?fs0
              and ?fs1.0 = "insert ?d1 ?fs0" and ?fs2.0 = "insert ?d2 (insert ?d1 ?fs0)"
              and ?rc0.0 = 0 and ?err0.0 = "[]"
              and ?o1.0 = "[]" and ?e1.0 = "[]" and ?o2.0 = "[]" and ?e2.0 = "[]"
              and ?o3.0 = "[]" and ?e3.0 = "[]"])
       (simp_all add: fake_facts split_ws_def utf8_valid_def)
  moreover have "{p \<in> insert (keypath ?E (cache_key ''int x = 1;''))
                       (insert (cache_root ?E) (insert ?d3 (insert ?d2 (insert ?d1 ?fs0)))
                        - {?d3}).
                 \<not> within ?tmp p}
      = {''/home/u/.cache/visioncpp/key130'', ''/home/u/.cache/visioncpp'',
                ''/opt/computecpp/bin/computecpp_info'', ''/opt/computecpp/bin/compute++'',
                ''/opt/computecpp/lib/libComputeCpp.so''}"
  proof -
    let ?xs = "[''/home/u/.cache/visioncpp/key130'', ''/home/u/.cache/visioncpp'',
                ?d2, ?d1, ?tmp, ''/home/u/.cache/visioncpp'',
                ''/opt/computecpp/bin/computecpp_info'',
                ''/opt/computecpp/bin/compute++'', ''/opt/computecpp/lib/libComputeCpp.so'']"
    have "insert (keypath ?E (cache_key ''int x = 1;''))
                       (insert (cache_root ?E) (insert ?d3 (insert ?d2 (insert ?d1 ?fs0)))
                        - {?d3}) = set ?xs"
      unfolding fake_keypath files0 by (simp add: insert_Diff_if)
    then have "{p \<in> insert (keypath ?E (cache_key ''int x = 1;''))
                       (insert (cache_root ?E) (insert ?d3 (insert ?d2 (insert ?d1 ?fs0)))
                        - {?d3}).
                 \<not> within ?tmp p} = set (filter (\<lambda>p. \<not> within ?tmp p) ?xs)"
      by (simp only: set_filter)
    also have "filter (\<lambda>p. \<not> within ?tmp p) ?xs
       = [''/home/u/.cache/visioncpp/key130'', ''/home/u/.cache/visioncpp'',
          ''/home/u/.cache/visioncpp'', ''/opt/computecpp/bin/computecpp_info'',
          ''/opt/computecpp/bin/compute++'', ''/opt/computecpp/lib/libComputeCpp.so'']"
      by (simp add: within_literals)
    finally show ?thesis by simp
  qed
  ultimately show ?thesis
    by (simp add: fake_keypath installed_def split_ws_def)
qed

lemmas model_defs =
  compile_cpp_code_def try_body_def build_stages_def stub_file_def host_compile_def link_def
  invoke_computecpp_def get_device_cflags_def get_host_cflags_def get_ldflags_def
  check_for_computecpp_def must_exist_def mkdtemp_def rmtree_def fresh_dir_def within_def
  fscache_init_def fscache_get_def fscache_getitem_def fscache_setitem_def fscache_contains_def
  keypath_def truthy_def progress_def progress_text_def cache_key_def and_then_def path_exists_def
  path_join_def path_join3_def dir_sep_def logging_info_def log_events_def emit_def eprints_def
  decode_utf8_def utf8_valid_def split_ws_def stub_args_def host_args_def link_args_def
  computecpp_def device_info_cmd_def Let_def
  fake_env_def fake_popen_def installed_def never_def always_def
  is_stub_def

lemma toolchain_calls_expected:
  "toolchain_calls E (expected_build_trace E code flags d1 d2 d3) =
     [Spawn (computecpp E # stub_args E flags d1) (Some code),
      Spawn (computecpp E # host_args E d1 d2) (Some code),
      Spawn (computecpp E # link_args E d2 d3) None]"
  by (simp add: expected_build_trace_def toolchain_calls_def log_events_def)

lemma spawns_log [simp]: "spawns (log_events E m) = []"
  by (simp add: spawns_def log_events_def)

section \<open>The claims of the specification\<close>

subsection \<open>C1: cache idempotence\<close>

text \<open>
  Claim C1, as the specification states it: building the same source text twice invokes
  the toolchain (\<open>invoke_computecpp\<close>) at most once in total; the second call returns the
  same artifact path as the first and spawns no process.

  The code runs the compiler three times in one build, so "at most once" fails
  for \<open>invoke_computecpp\<close>. What holds: if a call of \<open>compile_cpp_code\<close> returns a path,
  a second call with the same source, made in the world the first one left, returns the
  same path, starts no process and stores nothing in the cache; over both calls the
  compiler runs at most three times, the runs of the one build.
\<close>

theorem cache_idempotence:
  assumes "compile_cpp_code E src w = (Inr p, w1)"
  shows "\<exists>w2. compile_cpp_code E src w1 = (Inr p, w2)
              \<and> spawns (trace w2) = spawns (trace w1)
              \<and> cache_stores (trace w2) = cache_stores (trace w1)
              \<and> length (toolchain_calls E (trace w2))
                  \<le> length (toolchain_calls E (trace w)) + 3"
proof -
  from compile_cpp_code_Inr [OF assms]
  have p: "p = keypath E (cache_key src)" and ex: "path_exists w1 (keypath E (cache_key src))"
    by simp_all
  from ex have "path_exists (fscache_init E w1) (keypath E (cache_key src))"
    by (simp add: path_exists_def fscache_init_def)
  from compile_cpp_code_hit [OF this]
  have second: "compile_cpp_code E src w1 =
      (Inr p, logging_info E (''Found cached binary '' @ basename (keypath E (cache_key src)))
                (fscache_init E w1))"
    by (simp add: p)
  from trace_bound [OF compile_cpp_code_trace [OF assms]]
  obtain ev where "trace w1 = trace w @ ev" "length (toolchain_calls E ev) \<le> 3"
    by blast
  then have "length (toolchain_calls E (trace w1)) \<le> length (toolchain_calls E (trace w)) + 3"
    by simp
  with second show ?thesis by simp
qed

text \<open>
  The theorem at a concrete input: the first call builds \<^verbatim>\<open>int x = 1;\<close> with the test
  double on a machine that has the toolchain and an empty cache.
\<close>

theorem cache_idempotence_witness:
  "compile_cpp_code (fake_env never 0 [] 30) ''int x = 1;'' installed
     = (Inr ''/home/u/.cache/visioncpp/key130'',
        snd (compile_cpp_code (fake_env never 0 [] 30) ''int x = 1;'' installed))
   \<and> fst (compile_cpp_code (fake_env never 0 [] 30) ''int x = 1;''
           (snd (compile_cpp_code (fake_env never 0 [] 30) ''int x = 1;'' installed)))
       = Inr ''/home/u/.cache/visioncpp/key130''
   \<and> spawns (trace (snd (compile_cpp_code (fake_env never 0 [] 30) ''int x = 1;''
           (snd (compile_cpp_code (fake_env never 0 [] 30) ''int x = 1;'' installed)))))
       = spawns (trace (snd (compile_cpp_code (fake_env never 0 [] 30) ''int x = 1;''
           installed)))"
proof -
  let ?E = "fake_env never 0 [] 30"
  let ?w1 = "snd (compile_cpp_code ?E ''int x = 1;'' installed)"
  have first: "compile_cpp_code ?E ''int x = 1;'' installed
                 = (Inr ''/home/u/.cache/visioncpp/key130'', ?w1)"
    by (simp add: fake_build)
  from cache_idempotence [OF first] obtain w2 where
    w2: "compile_cpp_code ?E ''int x = 1;'' ?w1 = (Inr ''/home/u/.cache/visioncpp/key130'', w2)"
    and sp: "spawns (trace w2) = spawns (trace ?w1)"
    by blast
  from w2 have "fst (compile_cpp_code ?E ''int x = 1;'' ?w1)
                  = Inr ''/home/u/.cache/visioncpp/key130''"
    and "snd (compile_cpp_code ?E ''int x = 1;'' ?w1) = w2"
    by simp_all
  with first sp show ?thesis by simp
qed

text \<open>
  The claim as stated fails on that input: after the two calls the trace holds three runs
  of the compiler, not at most one.
\<close>

theorem cache_idempotence_counterexample:
  "length (toolchain_calls (fake_env never 0 [] 30)
     (trace (snd (compile_cpp_code (fake_env never 0 [] 30) ''int x = 1;''
        (snd (compile_cpp_code (fake_env never 0 [] 30) ''int x = 1;'' installed)))))) = 3"
proof -
  let ?E = "fake_env never 0 [] 30"
  let ?w1 = "snd (compile_cpp_code ?E ''int x = 1;'' installed)"
  have t1: "length (toolchain_calls ?E (trace ?w1)) = 3"
    by (simp add: fake_build toolchain_calls_expected)
  have "path_exists ?w1 ''/home/u/.cache/visioncpp/key130''"
    by (simp add: fake_build path_exists_def)
  then have "path_exists (fscache_init ?E ?w1) (keypath ?E (cache_key ''int x = 1;''))"
    by (simp add: path_exists_def fscache_init_def fake_keypath)
  from compile_cpp_code_hit [OF this]
  have "trace (snd (compile_cpp_code ?E ''int x = 1;'' ?w1))
          = trace ?w1 @ log_events ?E (''Found cached binary ''
                @ basename (keypath ?E (cache_key ''int x = 1;'')))"
    by simp
  with t1 show ?thesis by simp
qed

subsection \<open>C2: the end-to-end build\<close>

text \<open>
  Claim C2, as the specification states it: for a source that is not in the cache and a
  toolchain that succeeds and produces the requested files, \<open>compile_cpp_code\<close> runs the
  compiler exactly three times, in the order stub, host, link, with outputs that end in
  \<^verbatim>\<open>stub.sycl\<close>, \<^verbatim>\<open>host.o\<close> and \<^verbatim>\<open>visioncpp_native\<close>, then records one cache entry for
  the source with its preamble, then returns the output path of the link stage.

  All of this holds but the last part: the value returned is the path of the entry in the
  cache, to which the linked binary was moved; the output of the link stage lies in the
  scratch directory, which no longer exists when the function returns. The hypotheses
  spell out the scenario: the three toolchain files exist, \<^verbatim>\<open>mkdtemp\<close> finds a fresh
  directory \<open>tmp\<close>, the device-info tool prints well-formed UTF-8, each run of the compiler
  exits with 0 and leaves its output behind, no run creates the output of a later stage
  or removes the scratch directory, and the cache entry does not lie in the scratch
  directory.
\<close>

theorem end_to_end_build:
  assumes code: "code = cache_key src" and kp: "kp = keypath E code"
    and w0: "w0 = fscache_init E w"
    and miss: "\<not> path_exists w0 kp"
    and inst: "\<forall>p\<in>set (required_files E). path_exists w0 p"
    and tmp: "tmp = tmp_name E (files w0)" and fresh: "fresh_dir tmp (files w0)"
    and d: "d1 = path_join tmp ''stub.sycl''" "d2 = path_join tmp ''host.o''"
      "d3 = path_join tmp ''visioncpp_native''"
    and devinfo: "popen E (device_info_cmd E) None (insert tmp (files w0))
                    = Exited rc0 out0 err0 fs0"
      "utf8_valid out0"
    and stub: "popen E (computecpp E # stub_args E (split_ws out0) d1) (Some code) fs0
                = Exited 0 o1 e1 fs1" "d1 \<in> fs1"
    and host: "d2 \<notin> fs1"
      "popen E (computecpp E # host_args E d1 d2) (Some code) fs1 = Exited 0 o2 e2 fs2"
      "d2 \<in> fs2"
    and link: "d3 \<notin> fs2"
      "popen E (computecpp E # link_args E d2 d3) None fs2 = Exited 0 o3 e3 fs3"
      "d3 \<in> fs3"
    and keep: "tmp \<in> fs3"
    and root: "cache_root E \<noteq> []" and outside: "\<not> within tmp kp"
  shows "\<exists>w'. compile_cpp_code E src w = (Inr kp, w')
           \<and> build_events E (trace w') = build_events E (trace w)
                @ [Spawn (computecpp E # stub_args E (split_ws out0) d1) (Some code),
                   Spawn (computecpp E # host_args E d1 d2) (Some code),
                   Spawn (computecpp E # link_args E d2 d3) None,
                   CacheStore (preamble @ src) d3]
           \<and> suffix ''stub.sycl'' d1 \<and> suffix ''host.o'' d2 \<and> suffix ''visioncpp_native'' d3
           \<and> path_exists w' kp \<and> \<not> path_exists w' d3 \<and> \<not> path_exists w' tmp"
proof -
  let ?w' = "\<lparr>files = {p \<in> insert kp (insert (cache_root E) fs3 - {d3}). \<not> within tmp p},
             trace = trace w @ expected_build_trace E code (split_ws out0) d1 d2 d3
                       @ [CacheStore code d3]\<rparr>"
  have run: "compile_cpp_code E src w = (Inr kp, ?w')"
    by (rule compile_success [OF code kp w0 miss inst tmp fresh d devinfo stub host link keep
          root outside])
  have ev: "build_events E (trace ?w') = build_events E (trace w)
                @ [Spawn (computecpp E # stub_args E (split_ws out0) d1) (Some code),
                   Spawn (computecpp E # host_args E d1 d2) (Some code),
                   Spawn (computecpp E # link_args E d2 d3) None,
                   CacheStore (preamble @ src) d3]"
    by (simp add: build_events_expected) (simp add: build_events_def code cache_key_def)
  have sf: "suffix ''stub.sycl'' d1 \<and> suffix ''host.o'' d2 \<and> suffix ''visioncpp_native'' d3"
    by (simp add: d suffix_path_join)
  have kpne: "kp \<noteq> []" using root by (simp add: kp keypath_def path_join_nonempty_left)
  have "within tmp d3" by (simp add: d within_path_join)
  with kpne outside
  have fl: "path_exists ?w' kp \<and> \<not> path_exists ?w' d3 \<and> \<not> path_exists ?w' tmp"
    by (simp add: path_exists_def)
  from run ev sf fl show ?thesis by blast
qed

text \<open>
  The theorem at the scenario of the specification: the source \<^verbatim>\<open>int x = 1;\<close>, the test
  double that always succeeds and writes the requested files, an empty cache.
\<close>

theorem end_to_end_build_witness:
  "\<not> path_exists (fscache_init (fake_env never 0 [] 30) installed)
        (keypath (fake_env never 0 [] 30) (cache_key ''int x = 1;''))
   \<and> fresh_dir ''/tmp/visioncpp-a1b2c3'' (files (fscache_init (fake_env never 0 [] 30) installed))
   \<and> fst (compile_cpp_code (fake_env never 0 [] 30) ''int x = 1;'' installed)
       = Inr ''/home/u/.cache/visioncpp/key130''
   \<and> build_events (fake_env never 0 [] 30)
        (trace (snd (compile_cpp_code (fake_env never 0 [] 30) ''int x = 1;'' installed)))
       = [Spawn (computecpp (fake_env never 0 [] 30)
                  # stub_args (fake_env never 0 [] 30) [] ''/tmp/visioncpp-a1b2c3/stub.sycl'')
            (Some (cache_key ''int x = 1;'')),
          Spawn (computecpp (fake_env never 0 [] 30)
                  # host_args (fake_env never 0 [] 30) ''/tmp/visioncpp-a1b2c3/stub.sycl''
                      ''/tmp/visioncpp-a1b2c3/host.o'')
            (Some (cache_key ''int x = 1;'')),
          Spawn (computecpp (fake_env never 0 [] 30)
                  # link_args (fake_env never 0 [] 30) ''/tmp/visioncpp-a1b2c3/host.o''
                      ''/tmp/visioncpp-a1b2c3/visioncpp_native'')
            None,
          CacheStore (preamble @ ''int x = 1;'') ''/tmp/visioncpp-a1b2c3/visioncpp_native'']"
proof -
  let ?E = "fake_env never 0 [] 30"
  let ?w0 = "fscache_init ?E installed"
  let ?tmp = "''/tmp/visioncpp-a1b2c3''"
  let ?d1 = "''/tmp/visioncpp-a1b2c3/stub.sycl''"
  let ?d2 = "''/tmp/visioncpp-a1b2c3/host.o''"
  let ?d3 = "''/tmp/visioncpp-a1b2c3/visioncpp_native''"
  let ?fs0 = "insert ?tmp (files ?w0)"
  have miss: "\<not> path_exists ?w0 (keypath ?E (cache_key ''int x = 1;''))"
    by (simp add: fake_facts)
  have fresh: "fresh_dir ?tmp (files ?w0)"
    by (simp add: fake_facts)
  have "\<exists>w'. compile_cpp_code ?E ''int x = 1;'' installed
                = (Inr (keypath ?E (cache_key ''int x = 1;'')), w')
           \<and> build_events ?E (trace w') = build_events ?E (trace installed)
                @ [Spawn (computecpp ?E # stub_args ?E (split_ws []) ?d1)
                     (Some (cache_key ''int x = 1;'')),
                   Spawn (computecpp ?E # host_args ?E ?d1 ?d2) (Some (cache_key ''int x = 1;'')),
                   Spawn (computecpp ?E # link_args ?E ?d2 ?d3) None,
                   CacheStore (preamble @ ''int x = 1;'') ?d3]
           \<and> suffix ''stub.sycl'' ?d1 \<and> suffix ''host.o'' ?d2
           \<and> suffix ''visioncpp_native'' ?d3
           \<and> path_exists w' (keypath ?E (cache_key ''int x = 1;''))
           \<and> \<not> path_exists w' ?d3 \<and> \<not> path_exists w' ?tmp"
    by (rule end_to_end_build [where ?w0.0 = ?w0 and tmp = ?tmp and ?fs0.0 = ?fs0
              and ?fs1.0 = "insert ?d1 ?fs0" and ?fs2.0 = "insert ?d2 (insert ?d1 ?fs0)"
              and ?fs3.0 = "insert ?d3 (insert ?d2 (insert ?d1 ?fs0))"
              and ?rc0.0 = 0 and ?err0.0 = "[]"
              and ?o1.0 = "[]" and ?e1.0 = "[]" and ?o2.0 = "[]" and ?e2.0 = "[]"
              and ?o3.0 = "[]" and ?e3.0 = "[]"])
       (simp_all add: fake_facts split_ws_def utf8_valid_def)
  then obtain w' where
    r: "compile_cpp_code ?E ''int x = 1;'' installed
          = (Inr (keypath ?E (cache_key ''int x = 1;'')), w')"
    and ev: "build_events ?E (trace w') = build_events ?E (trace installed)
                @ [Spawn (computecpp ?E # stub_args ?E (split_ws []) ?d1)
                     (Some (cache_key ''int x = 1;'')),
                   Spawn (computecpp ?E # host_args ?E ?d1 ?d2) (Some (cache_key ''int x = 1;'')),
                   Spawn (computecpp ?E # link_args ?E ?d2 ?d3) None,
                   CacheStore (preamble @ ''int x = 1;'') ?d3]"
    by blast
  from r have f: "fst (compile_cpp_code ?E ''int x = 1;'' installed)
                   = Inr (keypath ?E (cache_key ''int x = 1;''))"
    and s: "snd (compile_cpp_code ?E ''int x = 1;'' installed) = w'"
    by simp_all
  have ti: "build_events ?E (trace installed) = []"
    by (simp add: installed_def build_events_def)
  have sw: "split_ws [] = []" by (simp add: split_ws_def)
  from miss fresh f [unfolded fake_keypath] ev [unfolded ti sw, folded s] show ?thesis
    by simp
qed

text \<open>
  The claim as stated fails there: the call returns the path of the cache entry, which is
  not the output path of the link stage, the path that the last compiler run was given
  after \<^verbatim>\<open>-o\<close> and that the cache store moved away.
\<close>

theorem end_to_end_build_counterexample:
  "fst (compile_cpp_code (fake_env never 0 [] 30) ''int x = 1;'' installed)
     = Inr ''/home/u/.cache/visioncpp/key130''
   \<and> fst (compile_cpp_code (fake_env never 0 [] 30) ''int x = 1;'' installed)
     \<noteq> Inr ''/tmp/visioncpp-a1b2c3/visioncpp_native''
   \<and> build_events (fake_env never 0 [] 30)
        (trace (snd (compile_cpp_code (fake_env never 0 [] 30) ''int x = 1;'' installed)))
       = [Spawn (computecpp (fake_env never 0 [] 30)
                  # stub_args (fake_env never 0 [] 30) [] ''/tmp/visioncpp-a1b2c3/stub.sycl'')
            (Some (cache_key ''int x = 1;'')),
          Spawn (computecpp (fake_env never 0 [] 30)
                  # host_args (fake_env never 0 [] 30) ''/tmp/visioncpp-a1b2c3/stub.sycl''
                      ''/tmp/visioncpp-a1b2c3/host.o'')
            (Some (cache_key ''int x = 1;'')),
          Spawn (computecpp (fake_env never 0 [] 30)
                  # link_args (fake_env never 0 [] 30) ''/tmp/visioncpp-a1b2c3/host.o''
                      ''/tmp/visioncpp-a1b2c3/visioncpp_native'')
            None,
          CacheStore (cache_key ''int x = 1;'') ''/tmp/visioncpp-a1b2c3/visioncpp_native'']"
  by (simp add: fake_build build_events_expected) (simp add: build_events_def)

subsection \<open>C3: workspace cleanup on failure\<close>

text \<open>
  Claim C3: if any of the three stages fails, a toolchain run that exits with a code other
  than 0 included, the scratch directory of the build no longer exists afterwards.

  The code removes the directory in an \<^verbatim>\<open>except Exception\<close> handler, and a failed
  toolchain run ends in \<^verbatim>\<open>sys.exit\<close>, whose \<^verbatim>\<open>SystemExit\<close> that handler does not catch.
  The run below is the failing input: the compiler exits with 1 in the first stage, the
  call ends with \<open>SystemExit 1\<close> and the scratch directory still exists. For comparison,
  the same build with a compiler that exits with 0 but writes no output fails an
  assertion, an \<^verbatim>\<open>Exception\<close>, and there the directory is removed.
\<close>

theorem cleanup_misses_exit:
  "fst (compile_cpp_code (fake_env is_stub 1 [] 30) ''int x = 1;'' installed) = Inl (SystemExit 1)
   \<and> path_exists (snd (compile_cpp_code (fake_env is_stub 1 [] 30) ''int x = 1;'' installed))
        ''/tmp/visioncpp-a1b2c3''
   \<and> fst (compile_cpp_code (fake_env is_stub 0 [] 30) ''int x = 1;'' installed)
       = Inl AssertionError
   \<and> \<not> path_exists (snd (compile_cpp_code (fake_env is_stub 0 [] 30) ''int x = 1;'' installed))
        ''/tmp/visioncpp-a1b2c3''"
  by (simp add: model_defs)

subsection \<open>C4: atomic cache write\<close>

text \<open>
  Claim C4: if the build fails at any stage (device compile, host compile, link), no cache
  entry is written for the source; an entry is written only after all three stages have
  completed.

  For every run of \<open>compile_cpp_code\<close>: if the cache misses, the toolchain is present,
  the scratch directory is created and the stages fail, then the call fails, the trace
  has no new cache store, and the file system holds nothing that it did not hold when the
  stages failed; and in any case, either the trace has no new cache store, or the three
  stages completed and the one new store is that of their output under the key of the
  source.
\<close>

theorem atomic_cache_write:
  assumes run: "compile_cpp_code E src w = (r, w')"
  shows "(\<not> truthy (fscache_get E (cache_key src) (fscache_init E w))
          \<and> check_for_computecpp E (fscache_init E w) = (Inr (), fscache_init E w)
          \<and> mkdtemp E (fscache_init E w) = (Inr tmpdir, w2)
          \<and> build_stages E (cache_key src) tmpdir w2 = (Inl e, w3)
          \<longrightarrow> (\<exists>e'. r = Inl e')
              \<and> cache_stores (trace w') = cache_stores (trace w)
              \<and> files w' \<subseteq> files w3)
         \<and> (cache_stores (trace w') = cache_stores (trace w)
            \<or> (\<exists>tmpdir w2 tmpbin w3.
                  mkdtemp E (fscache_init E w) = (Inr tmpdir, w2)
                  \<and> build_stages E (cache_key src) tmpdir w2 = (Inr tmpbin, w3)
                  \<and> cache_stores (trace w')
                      = cache_stores (trace w) @ [CacheStore (cache_key src) tmpbin]))"
proof -
  have only_after: "cache_stores (trace w') = cache_stores (trace w)
            \<or> (\<exists>tmpdir w2 tmpbin w3.
                  mkdtemp E (fscache_init E w) = (Inr tmpdir, w2)
                  \<and> build_stages E (cache_key src) tmpdir w2 = (Inr tmpbin, w3)
                  \<and> cache_stores (trace w')
                      = cache_stores (trace w) @ [CacheStore (cache_key src) tmpbin])"
    by (rule stores_cases [OF compile_cpp_code_trace [OF run]])
  have failing: "(\<exists>e'. r = Inl e')
              \<and> cache_stores (trace w') = cache_stores (trace w)
              \<and> files w' \<subseteq> files w3"
    if miss: "\<not> truthy (fscache_get E (cache_key src) (fscache_init E w))"
    and chk: "check_for_computecpp E (fscache_init E w) = (Inr (), fscache_init E w)"
    and tmp: "mkdtemp E (fscache_init E w) = (Inr tmpdir, w2)"
    and fail: "build_stages E (cache_key src) tmpdir w2 = (Inl e, w3)"
  proof -
    from fail have tb: "try_body E (cache_key src) tmpdir w2 = (Inl e, w3)"
      by (simp add: try_body_def)
    have cb: "cache_or_build E src w =
                (if is_Exception e then and_then (rmtree tmpdir w3) (\<lambda>_ w4. (Inl e, w4))
                 else (Inl e, w3))"
      by (simp add: cache_or_build_miss [OF miss] chk tmp tb)
    have "\<exists>e' w4. cache_or_build E src w = (Inl e', w4) \<and> trace w4 = trace w3
             \<and> files w4 \<subseteq> files w3"
      unfolding cb by (auto simp: rmtree_def)
    then obtain e' w4 where w4: "cache_or_build E src w = (Inl e', w4)" "trace w4 = trace w3"
      "files w4 \<subseteq> files w3"
      by blast
    from run w4(1) have res: "r = Inl e'" "w' = w4"
      by (simp_all add: compile_cpp_code_split)
    from adds_build_stages [OF fail] mkdtemp_trace [OF tmp]
    have "cache_stores (trace w3) = cache_stores (trace w)"
      by (auto simp: adds_def)
    with res w4 show ?thesis by simp
  qed
  from only_after failing show ?thesis by blast
qed

text \<open>
  The first part at a concrete input: the first two stages succeed and the compiler exits
  with 1 in the link stage.
\<close>

theorem atomic_cache_write_witness:
  "\<not> truthy (fscache_get (fake_env is_link 1 [] 30) (cache_key ''int x = 1;'')
          (fscache_init (fake_env is_link 1 [] 30) installed))
   \<and> check_for_computecpp (fake_env is_link 1 [] 30)
         (fscache_init (fake_env is_link 1 [] 30) installed)
       = (Inr (), fscache_init (fake_env is_link 1 [] 30) installed)
   \<and> fst (mkdtemp (fake_env is_link 1 [] 30) (fscache_init (fake_env is_link 1 [] 30) installed))
       = Inr ''/tmp/visioncpp-a1b2c3''
   \<and> fst (build_stages (fake_env is_link 1 [] 30) (cache_key ''int x = 1;'')
             ''/tmp/visioncpp-a1b2c3''
             (snd (mkdtemp (fake_env is_link 1 [] 30)
                     (fscache_init (fake_env is_link 1 [] 30) installed))))
       = Inl (SystemExit 1)
   \<and> (\<exists>e'. fst (compile_cpp_code (fake_env is_link 1 [] 30) ''int x = 1;'' installed) = Inl e')
   \<and> cache_stores (trace (snd (compile_cpp_code (fake_env is_link 1 [] 30) ''int x = 1;''
          installed))) = []"
proof -
  let ?E = "fake_env is_link 1 [] 30"
  let ?w0 = "fscache_init ?E installed"
  let ?tmp = "''/tmp/visioncpp-a1b2c3''"
  let ?d1 = "''/tmp/visioncpp-a1b2c3/stub.sycl''"
  let ?d2 = "''/tmp/visioncpp-a1b2c3/host.o''"
  let ?d3 = "''/tmp/visioncpp-a1b2c3/visioncpp_native''"
  let ?w2 = "snd (mkdtemp ?E ?w0)"
  let ?fs0 = "insert ?tmp (files ?w0)"
  let ?code = "cache_key ''int x = 1;''"
  have miss: "\<not> truthy (fscache_get ?E ?code ?w0)"
    by (simp add: truthy_get fake_facts)
  have chk: "check_for_computecpp ?E ?w0 = (Inr (), ?w0)"
    by (rule check_for_computecpp_ok) (simp add: fake_facts)
  have mk: "mkdtemp ?E ?w0 = (Inr ?tmp, ?w2)"
    using mkdtemp_ok [of ?E ?w0] by (simp add: fake_facts)
  have mkf: "fst (mkdtemp ?E ?w0) = Inr ?tmp"
    using mkdtemp_ok [of ?E ?w0] by (simp add: fake_facts)
  have w2: "files ?w2 = ?fs0"
    using mkdtemp_ok [of ?E ?w0] by (simp add: fake_facts)
  have bs: "fst (build_stages ?E ?code ?tmp ?w2) = Inl (SystemExit 1)"
    by (rule build_stages_link_exit [where ?d1.0 = ?d1 and ?d2.0 = ?d2 and ?d3.0 = ?d3
              and ?fs0.0 = ?fs0 and ?fs1.0 = "insert ?d1 ?fs0"
              and ?fs2.0 = "insert ?d2 (insert ?d1 ?fs0)"
              and ?fs3.0 = "insert ?d2 (insert ?d1 ?fs0)"
              and ?rc0.0 = 0 and ?out0.0 = "[]" and ?err0.0 = "[]"
              and ?o1.0 = "[]" and ?e1.0 = "[]" and ?o2.0 = "[]" and ?e2.0 = "[]"
              and ?o3.0 = "[]" and ?e3.0 = "''failed''"])
       (simp_all add: w2 fake_facts fake_runs_link split_ws_def utf8_valid_def)
  then have fail: "build_stages ?E ?code ?tmp ?w2
                     = (Inl (SystemExit 1), snd (build_stages ?E ?code ?tmp ?w2))"
    by (simp add: prod_eq_iff)
  have run: "compile_cpp_code ?E ''int x = 1;'' installed
               = (fst (compile_cpp_code ?E ''int x = 1;'' installed),
                  snd (compile_cpp_code ?E ''int x = 1;'' installed))"
    by simp
  note t = atomic_cache_write [OF run, of ?tmp ?w2 "SystemExit 1"
             "snd (build_stages ?E ?code ?tmp ?w2)"]
  from miss chk mk fail
  have hyp: "\<not> truthy (fscache_get ?E ?code ?w0)
      \<and> check_for_computecpp ?E ?w0 = (Inr (), ?w0)
      \<and> mkdtemp ?E ?w0 = (Inr ?tmp, ?w2)
      \<and> build_stages ?E ?code ?tmp ?w2
            = (Inl (SystemExit 1), snd (build_stages ?E ?code ?tmp ?w2))"
    by (intro conjI)
  note c = t [THEN conjunct1, THEN mp, OF hyp]
  from c [THEN conjunct1] c [THEN conjunct2, THEN conjunct1]
  have "(\<exists>e'. fst (compile_cpp_code ?E ''int x = 1;'' installed) = Inl e')
        \<and> cache_stores (trace (snd (compile_cpp_code ?E ''int x = 1;'' installed)))
            = cache_stores (trace installed)"
    by (rule conjI)
  moreover have "cache_stores (trace installed) = []" by (simp add: installed_def)
  ultimately show ?thesis using miss chk mkf bs by simp
qed

subsection \<open>C5: a missing toolchain fails fast\<close>

text \<open>
  Claim C5: if any of the three required toolchain files does not exist, a build on a
  cache miss fails with a configuration error that names the missing path, and no process
  is spawned before.

  The error is \<open>VisionCppException\<close> with the message for the first missing file in the
  order of the checks; the world is the one left by creating the cache object, so the
  trace is unchanged: nothing was spawned, printed or stored.
\<close>

theorem missing_toolchain_fails_fast:
  assumes "\<not> truthy (fscache_get E (cache_key src) (fscache_init E w))"
    and "q \<in> set (required_files E)"
    and "\<not> path_exists (fscache_init E w) q"
  shows "\<exists>p. find (\<lambda>p. \<not> path_exists (fscache_init E w) p) (required_files E) = Some p
             \<and> compile_cpp_code E src w
                 = (Inl (VisionCppException (not_found_message p)), fscache_init E w)
             \<and> trace (fscache_init E w) = trace w"
proof -
  from assms(2,3) obtain p
    where p: "find (\<lambda>p. \<not> path_exists (fscache_init E w) p) (required_files E) = Some p"
    by (cases "find (\<lambda>p. \<not> path_exists (fscache_init E w) p) (required_files E)")
       (auto simp: find_None_iff)
  then have "check_for_computecpp E (fscache_init E w)
               = (Inl (VisionCppException (not_found_message p)), fscache_init E w)"
    by (simp add: check_for_computecpp_find)
  then have "compile_cpp_code E src w
                 = (Inl (VisionCppException (not_found_message p)), fscache_init E w)"
    by (simp add: compile_cpp_code_split cache_or_build_miss [OF assms(1)])
  with p show ?thesis by simp
qed

theorem missing_toolchain_fails_fast_witness:
  "\<not> truthy (fscache_get (fake_env never 0 [] 30) (cache_key ''int x = 1;'')
        (fscache_init (fake_env never 0 [] 30)
           \<lparr>files = {''/opt/computecpp/bin/computecpp_info'',
                      ''/opt/computecpp/lib/libComputeCpp.so''}, trace = []\<rparr>))
   \<and> ''/opt/computecpp/bin/compute++'' \<in> set (required_files (fake_env never 0 [] 30))
   \<and> \<not> path_exists (fscache_init (fake_env never 0 [] 30)
           \<lparr>files = {''/opt/computecpp/bin/computecpp_info'',
                      ''/opt/computecpp/lib/libComputeCpp.so''}, trace = []\<rparr>)
         ''/opt/computecpp/bin/compute++''
   \<and> fst (compile_cpp_code (fake_env never 0 [] 30) ''int x = 1;''
           \<lparr>files = {''/opt/computecpp/bin/computecpp_info'',
                      ''/opt/computecpp/lib/libComputeCpp.so''}, trace = []\<rparr>)
       = Inl (VisionCppException (not_found_message ''/opt/computecpp/bin/compute++''))"
proof -
  let ?E = "fake_env never 0 [] 30"
  let ?w = "\<lparr>files = {''/opt/computecpp/bin/computecpp_info'',
                      ''/opt/computecpp/lib/libComputeCpp.so''}, trace = []\<rparr>"
  have k: "keypath ?E (cache_key ''int x = 1;'') = ''/home/u/.cache/visioncpp/key130''"
    by (simp add: keypath_def cache_key_def preamble_def nl_def fake_env_def path_join_def
          dir_sep_def digit_def)
  have a: "\<not> truthy (fscache_get ?E (cache_key ''int x = 1;'') (fscache_init ?E ?w))"
    unfolding truthy_get k by (simp add: path_exists_def fscache_init_def fake_env_def)
  have r: "required_files ?E = [''/opt/computecpp/bin/computecpp_info'',
             ''/opt/computecpp/bin/compute++'', ''/opt/computecpp/lib/libComputeCpp.so'']"
    by (simp add: required_files_def fake_env_def path_join3_def path_join_def dir_sep_def)
  have b: "''/opt/computecpp/bin/compute++'' \<in> set (required_files ?E)"
    unfolding r by simp
  have c: "\<not> path_exists (fscache_init ?E ?w) ''/opt/computecpp/bin/compute++''"
    by (simp add: path_exists_def fscache_init_def fake_env_def)
  have f: "find (\<lambda>p. \<not> path_exists (fscache_init ?E ?w) p) (required_files ?E)
             = Some ''/opt/computecpp/bin/compute++''"
    unfolding r by (simp add: path_exists_def fscache_init_def fake_env_def)
  from missing_toolchain_fails_fast [OF a b c] f
  have "fst (compile_cpp_code ?E ''int x = 1;'' ?w)
       = Inl (VisionCppException (not_found_message ''/opt/computecpp/bin/compute++''))"
    by auto
  with a b c show ?thesis by (intro conjI)
qed

subsection \<open>C6: reporting a toolchain failure\<close>

text \<open>
  Claim C6, as the specification states it: whenever a toolchain run returns a code other
  than 0, the process dumps the command line, the input (if any), the captured output and
  the captured error output to the diagnostic stream and then terminates with the exit
  code of the compiler; \<open>invoke_computecpp\<close> never returns normally then.

  Two parts fail. The command line is not part of the dump: it is only passed to
  \<^verbatim>\<open>logging.info\<close> before the process starts, and is dropped unless the logging level is
  \<^verbatim>\<open>INFO\<close> or lower. And both outputs are decoded as UTF-8 before they are printed, so
  output that is not well-formed UTF-8 ends the call in \<^verbatim>\<open>UnicodeDecodeError\<close>, not in
  \<^verbatim>\<open>sys.exit\<close>. What holds: after a return code other than 0 the call never returns
  normally, it ends in \<open>SystemExit\<close> with that code or in \<open>UnicodeDecodeError\<close>; and if
  both outputs are well-formed UTF-8 it prints the input (if any), the output and the
  error output to the standard error stream and ends in \<open>SystemExit\<close> with the return
  code of the compiler.
\<close>

theorem toolchain_failure_report:
  assumes "popen E (computecpp E # args) inp (files w) = Exited rc out err fs"
    and "rc \<noteq> 0"
  shows "(\<exists>w'. invoke_computecpp E args inp w = (Inl (SystemExit rc), w')
               \<or> invoke_computecpp E args inp w = (Inl UnicodeDecodeError, w'))
         \<and> (utf8_valid out \<and> utf8_valid err \<longrightarrow>
              invoke_computecpp E args inp w =
                (Inl (SystemExit rc),
                 \<lparr>files = fs,
                  trace = trace w @ log_events E (join_sp (computecpp E # args))
                    @ [Spawn (computecpp E # args) inp]
                    @ map Stderr
                        ([''================'' @ nl, ''ComputeCpp Error'' @ nl,
                          ''================'' @ nl, nl]
                         @ (case inp of None \<Rightarrow> []
                            | Some s \<Rightarrow> [''=== compute++ input:'' @ nl, nl, s, nl])
                         @ [''=== compute++ output:'' @ nl, nl, out, nl,
                            ''=== compute++ error output:'' @ nl, nl, err, nl,
                            ''========================='' @ nl,
                            ''FATAL ERROR. TERMINATING.'' @ nl])\<rparr>))"
  using assms
  by (auto simp: invoke_computecpp_def decode_utf8_def Let_def eprints_def emit_def
        logging_info_def split: option.splits)

theorem toolchain_failure_report_witness:
  "popen (fake_env is_stub 2 ''warning'' 20)
     (computecpp (fake_env is_stub 2 ''warning'' 20) # [''-o'', ''/tmp/a.o''])
     (Some ''int x'') (files installed) = Exited 2 ''warning'' ''failed'' (files installed)
   \<and> (2::int) \<noteq> 0 \<and> utf8_valid ''warning'' \<and> utf8_valid ''failed''
   \<and> fst (invoke_computecpp (fake_env is_stub 2 ''warning'' 20) [''-o'', ''/tmp/a.o'']
            (Some ''int x'') installed) = Inl (SystemExit 2)"
proof -
  have a: "popen (fake_env is_stub 2 ''warning'' 20)
     (computecpp (fake_env is_stub 2 ''warning'' 20) # [''-o'', ''/tmp/a.o''])
     (Some ''int x'') (files installed) = Exited 2 ''warning'' ''failed'' (files installed)"
    by (simp add: fake_env_def fake_popen_def is_stub_def computecpp_def path_join3_def
          path_join_def dir_sep_def)
  have b: "(2::int) \<noteq> 0" by simp
  have c: "utf8_valid ''warning'' \<and> utf8_valid ''failed''" by (simp add: utf8_valid_def)
  from toolchain_failure_report [OF a b] c
  have "fst (invoke_computecpp (fake_env is_stub 2 ''warning'' 20) [''-o'', ''/tmp/a.o'']
            (Some ''int x'') installed) = Inl (SystemExit 2)"
    by simp
  with a b c show ?thesis by simp
qed

text \<open>
  The claim as stated fails: with an output of the single byte \<^verbatim>\<open>0xFF\<close> the call ends in
  \<open>UnicodeDecodeError\<close>; and at the default logging level the trace after a failed run
  holds the process and the dump, in which the command line does not occur.
\<close>

theorem toolchain_failure_report_counterexample:
  "fst (invoke_computecpp (fake_env is_stub 2 [CHR 0xFF] 30) [''-o'', ''/tmp/a.o'']
          (Some ''int x'') installed) = Inl UnicodeDecodeError
   \<and> trace (snd (invoke_computecpp (fake_env is_stub 2 ''warning'' 30) [''-o'', ''/tmp/a.o'']
          None installed))
       = [Spawn [''/opt/computecpp/bin/compute++'', ''-o'', ''/tmp/a.o''] None,
          Stderr (''================'' @ nl), Stderr (''ComputeCpp Error'' @ nl),
          Stderr (''================'' @ nl), Stderr nl,
          Stderr (''=== compute++ output:'' @ nl), Stderr nl,
          Stderr ''warning'', Stderr nl,
          Stderr (''=== compute++ error output:'' @ nl), Stderr nl,
          Stderr ''failed'', Stderr nl,
          Stderr (''========================='' @ nl),
          Stderr (''FATAL ERROR. TERMINATING.'' @ nl)]"
  by (simp add: invoke_computecpp_def fake_env_def fake_popen_def is_stub_def decode_utf8_def
        utf8_valid_def Let_def computecpp_def path_join3_def path_join_def dir_sep_def
        installed_def log_events_def)

subsection \<open>C7: the preamble is part of the cache key\<close>

text \<open>
  Claim C7: for every submitted source \<open>X\<close> the cache key that \<open>compile_cpp_code\<close> uses
  is the fixed preamble followed by \<open>X\<close>, which differs from \<open>X\<close> alone; nothing is
  normalised, so \<^verbatim>\<open>A\<close> and \<^verbatim>\<open>A\<close> followed by a space have different keys.

  The key is the text itself (the cache turns it into a file name with \<open>escape_key\<close>, a
  parameter here). \<open>cache_key\<close> is the key of every cache operation of
  \<open>compile_cpp_code\<close>: a call hits the cache exactly on the entry of \<open>preamble @ X\<close>,
  and whatever path a call returns is the path of that entry.
\<close>

theorem preamble_in_cache_key:
  "cache_key X = preamble @ X \<and> cache_key X \<noteq> X
   \<and> cache_key ''A'' \<noteq> cache_key ''A ''
   \<and> (cache_key X = cache_key Y) = (X = Y)
   \<and> (path_exists (fscache_init E w) (keypath E (preamble @ X)) \<longrightarrow>
        fst (compile_cpp_code E X w) = Inr (keypath E (preamble @ X)))
   \<and> (fst (compile_cpp_code E X w) = Inr p \<longrightarrow> p = keypath E (preamble @ X))"
proof -
  have 0: "cache_key X = preamble @ X" by (simp add: cache_key_def)
  have "length (cache_key X) \<noteq> length X"
    by (simp add: cache_key_def preamble_def nl_def)
  then have 1: "cache_key X \<noteq> X" by auto
  have 2: "cache_key ''A'' \<noteq> cache_key ''A ''" by (simp add: cache_key_def)
  have 3: "(cache_key X = cache_key Y) = (X = Y)" by (simp add: cache_key_def)
  have 4: "path_exists (fscache_init E w) (keypath E (preamble @ X)) \<longrightarrow>
        fst (compile_cpp_code E X w) = Inr (keypath E (preamble @ X))"
  proof
    assume "path_exists (fscache_init E w) (keypath E (preamble @ X))"
    then have "path_exists (fscache_init E w) (keypath E (cache_key X))"
      unfolding 0 .
    from compile_cpp_code_hit [OF this]
    have "fst (compile_cpp_code E X w) = Inr (keypath E (cache_key X))" by simp
    then show "fst (compile_cpp_code E X w) = Inr (keypath E (preamble @ X))"
      unfolding 0 .
  qed
  have 5: "fst (compile_cpp_code E X w) = Inr p \<longrightarrow> p = keypath E (preamble @ X)"
  proof
    assume r: "fst (compile_cpp_code E X w) = Inr p"
    obtain r' w' where "compile_cpp_code E X w = (r', w')"
      by (cases "compile_cpp_code E X w") blast
    with r have "compile_cpp_code E X w = (Inr p, w')" by simp
    from compile_cpp_code_Inr [OF this] have "p = keypath E (cache_key X)" by (rule conjunct1)
    then show "p = keypath E (preamble @ X)" unfolding 0 .
  qed
  from 0 1 2 3 4 5 show ?thesis by (intro conjI)
qed

theorem preamble_in_cache_key_witness:
  "path_exists (fscache_init (fake_env never 0 [] 30)
       \<lparr>files = {''/home/u/.cache/visioncpp/key130''}, trace = []\<rparr>)
     (keypath (fake_env never 0 [] 30) (preamble @ ''int x = 1;''))
   \<and> fst (compile_cpp_code (fake_env never 0 [] 30) ''int x = 1;''
            \<lparr>files = {''/home/u/.cache/visioncpp/key130''}, trace = []\<rparr>)
       = Inr ''/home/u/.cache/visioncpp/key130''
   \<and> keypath (fake_env never 0 [] 30) (preamble @ ''int x = 1;'')
       = ''/home/u/.cache/visioncpp/key130''"
proof -
  let ?E = "fake_env never 0 [] 30"
  let ?w = "\<lparr>files = {''/home/u/.cache/visioncpp/key130''}, trace = []\<rparr>"
  have k: "keypath ?E (preamble @ ''int x = 1;'') = ''/home/u/.cache/visioncpp/key130''"
    using fake_keypath [of never 0 "[]" 30] unfolding cache_key_def .
  have h: "path_exists (fscache_init ?E ?w) (keypath ?E (preamble @ ''int x = 1;''))"
    unfolding k by (simp add: path_exists_def fscache_init_def)
  note t = preamble_in_cache_key [of "''int x = 1;''" "''int x = 1;''" ?E ?w
             "''/home/u/.cache/visioncpp/key130''"]
  note imp = t [THEN conjunct2, THEN conjunct2, THEN conjunct2, THEN conjunct2, THEN conjunct1]
  from imp [THEN mp, OF h]
  have "fst (compile_cpp_code ?E ''int x = 1;'' ?w)
          = Inr (keypath ?E (preamble @ ''int x = 1;''))" .
  then have "fst (compile_cpp_code ?E ''int x = 1;'' ?w) = Inr ''/home/u/.cache/visioncpp/key130''"
    unfolding k .
  with h k show ?thesis by (intro conjI)
qed

subsection \<open>C8: the runner validates its arguments\<close>

text \<open>
  Claim C8: \<open>run\<close> fails with a type error if a stage of the pipeline is no operation or
  the binary is no string, and with a value error if the binary is empty or names no
  existing path; in all these cases it fails before the binary is loaded and without any
  other effect.

  The checks run in this order, so the value error is what a call gets whose pipeline and
  binary have passed the two type checks. The world is returned as it was: no image was
  shown, no library loaded, nothing printed.
\<close>

theorem run_argument_validation:
  "(\<not> list_all is_Operation pipeline \<longrightarrow> run E pipeline binary w = (Inl TypeError, w))
   \<and> (binary = NotStr \<longrightarrow> run E pipeline binary w = (Inl TypeError, w))
   \<and> (list_all is_Operation pipeline \<and> binary = Str b \<and> (b = [] \<or> \<not> path_exists w b)
        \<longrightarrow> run E pipeline binary w = (Inl ValueError, w))"
  by (auto simp: run_def)

theorem run_argument_validation_witness:
  "\<not> list_all is_Operation [Image_stage ''in.png'', NotOperation]
   \<and> run (fake_env never 0 [] 30) [Image_stage ''in.png'', NotOperation] (Str ''/bin/native'')
        installed = (Inl TypeError, installed)
   \<and> run (fake_env never 0 [] 30) [Image_stage ''in.png''] NotStr installed
        = (Inl TypeError, installed)
   \<and> list_all is_Operation [Image_stage ''in.png'']
   \<and> \<not> path_exists installed ''/bin/native''
   \<and> run (fake_env never 0 [] 30) [Image_stage ''in.png''] (Str ''/bin/native'') installed
        = (Inl ValueError, installed)
   \<and> run (fake_env never 0 [] 30) [Image_stage ''in.png''] (Str []) installed
        = (Inl ValueError, installed)"
proof -
  let ?E = "fake_env never 0 [] 30"
  have a: "\<not> list_all is_Operation [Image_stage ''in.png'', NotOperation]" by simp
  have b: "list_all is_Operation [Image_stage ''in.png'']" by simp
  have c: "\<not> path_exists installed ''/bin/native''"
    by (simp add: path_exists_def installed_def)
  note t1 = run_argument_validation [of "[Image_stage ''in.png'', NotOperation]" ?E
              "Str ''/bin/native''" installed "''/bin/native''"]
  note t2 = run_argument_validation [of "[Image_stage ''in.png'']" ?E NotStr installed "[]"]
  note t3 = run_argument_validation [of "[Image_stage ''in.png'']" ?E "Str ''/bin/native''"
              installed "''/bin/native''"]
  note t4 = run_argument_validation [of "[Image_stage ''in.png'']" ?E "Str []" installed "[]"]
  have 1: "run ?E [Image_stage ''in.png'', NotOperation] (Str ''/bin/native'') installed
             = (Inl TypeError, installed)"
    by (rule t1 [THEN conjunct1, THEN mp, OF a])
  have 2: "run ?E [Image_stage ''in.png''] NotStr installed = (Inl TypeError, installed)"
    by (rule t2 [THEN conjunct2, THEN conjunct1, THEN mp, OF refl])
  from b c have "list_all is_Operation [Image_stage ''in.png'']
      \<and> Str ''/bin/native'' = Str ''/bin/native''
      \<and> (''/bin/native'' = [] \<or> \<not> path_exists installed ''/bin/native'')"
    by simp
  from t3 [THEN conjunct2, THEN conjunct2, THEN mp, OF this]
  have 3: "run ?E [Image_stage ''in.png''] (Str ''/bin/native'') installed
             = (Inl ValueError, installed)" .
  from b have "list_all is_Operation [Image_stage ''in.png'']
      \<and> Str [] = Str [] \<and> ([] = [] \<or> \<not> path_exists installed [])"
    by simp
  from t4 [THEN conjunct2, THEN conjunct2, THEN mp, OF this]
  have 4: "run ?E [Image_stage ''in.png''] (Str []) installed = (Inl ValueError, installed)" .
  from a 1 2 b c 3 4 show ?thesis by (intro conjI)
qed

subsection \<open>C9: the assertions on the output of a stage\<close>

text \<open>
  Claim C9: each of \<open>stub_file\<close>, \<open>host_compile\<close> and \<open>link\<close> asserts that its
  destination (\<^verbatim>\<open>stub.sycl\<close>, \<^verbatim>\<open>host.o\<close>, \<^verbatim>\<open>visioncpp_native\<close> in the given directory)
  does not exist before it runs the compiler and does exist after the run; in a fresh
  directory and with a compiler that creates the requested output no assertion fails and
  the function returns the destination.

  For each stage: if the destination exists the call fails the first assertion and
  nothing else happens; if it does not exist and the compiler exits with 0, the call
  returns the destination when the compiler left it behind and fails the second assertion
  otherwise; and in a fresh directory none of the three destinations exists.
\<close>

theorem stage_output_assertions:
  "(path_exists w (path_join dir ''stub.sycl'')
      \<longrightarrow> stub_file E code dir w = (Inl AssertionError, w))
   \<and> (path_exists w (path_join dir ''host.o'')
      \<longrightarrow> host_compile E code stub dir w = (Inl AssertionError, w))
   \<and> (path_exists w (path_join dir ''visioncpp_native'')
      \<longrightarrow> link E host dir w = (Inl AssertionError, w))
   \<and> (\<not> path_exists w (path_join dir ''stub.sycl'')
       \<and> popen E (device_info_cmd E) None (files w) = Exited rc0 out0 err0 fs0
       \<and> utf8_valid out0
       \<and> popen E (computecpp E # stub_args E (split_ws out0) (path_join dir ''stub.sycl''))
            (Some code) fs0 = Exited 0 out_s err_s fs_s
      \<longrightarrow> fst (stub_file E code dir w)
            = (if path_join dir ''stub.sycl'' \<in> fs_s then Inr (path_join dir ''stub.sycl'')
               else Inl AssertionError))
   \<and> (\<not> path_exists w (path_join dir ''host.o'')
       \<and> popen E (computecpp E # host_args E stub (path_join dir ''host.o''))
            (Some code) (files w) = Exited 0 out_h err_h fs_h
      \<longrightarrow> fst (host_compile E code stub dir w)
            = (if path_join dir ''host.o'' \<in> fs_h then Inr (path_join dir ''host.o'')
               else Inl AssertionError))
   \<and> (\<not> path_exists w (path_join dir ''visioncpp_native'')
       \<and> popen E (computecpp E # link_args E host (path_join dir ''visioncpp_native''))
            None (files w) = Exited 0 out_l err_l fs_l
      \<longrightarrow> fst (link E host dir w)
            = (if path_join dir ''visioncpp_native'' \<in> fs_l
               then Inr (path_join dir ''visioncpp_native'') else Inl AssertionError))
   \<and> (fresh_dir dir (files w)
      \<longrightarrow> \<not> path_exists w (path_join dir ''stub.sycl'')
          \<and> \<not> path_exists w (path_join dir ''host.o'')
          \<and> \<not> path_exists w (path_join dir ''visioncpp_native''))"
proof (intro conjI impI)
  show "stub_file E code dir w = (Inl AssertionError, w)"
    if "path_exists w (path_join dir ''stub.sycl'')"
    using that by (simp add: stub_file_def)
  show "host_compile E code stub dir w = (Inl AssertionError, w)"
    if "path_exists w (path_join dir ''host.o'')"
    using that by (simp add: host_compile_def)
  show "link E host dir w = (Inl AssertionError, w)"
    if "path_exists w (path_join dir ''visioncpp_native'')"
    using that by (simp add: link_def)
  show "fst (stub_file E code dir w)
            = (if path_join dir ''stub.sycl'' \<in> fs_s then Inr (path_join dir ''stub.sycl'')
               else Inl AssertionError)"
    if "\<not> path_exists w (path_join dir ''stub.sycl'')
       \<and> popen E (device_info_cmd E) None (files w) = Exited rc0 out0 err0 fs0
       \<and> utf8_valid out0
       \<and> popen E (computecpp E # stub_args E (split_ws out0) (path_join dir ''stub.sycl''))
            (Some code) fs0 = Exited 0 out_s err_s fs_s"
    using that stub_file_run [of w dir E rc0 out0 err0 fs0 code out_s err_s fs_s] by simp
  show "fst (host_compile E code stub dir w)
            = (if path_join dir ''host.o'' \<in> fs_h then Inr (path_join dir ''host.o'')
               else Inl AssertionError)"
    if "\<not> path_exists w (path_join dir ''host.o'')
       \<and> popen E (computecpp E # host_args E stub (path_join dir ''host.o''))
            (Some code) (files w) = Exited 0 out_h err_h fs_h"
    using that host_compile_run [of w dir E stub code out_h err_h fs_h] by simp
  show "fst (link E host dir w)
            = (if path_join dir ''visioncpp_native'' \<in> fs_l
               then Inr (path_join dir ''visioncpp_native'') else Inl AssertionError)"
    if "\<not> path_exists w (path_join dir ''visioncpp_native'')
       \<and> popen E (computecpp E # link_args E host (path_join dir ''visioncpp_native''))
            None (files w) = Exited 0 out_l err_l fs_l"
    using that link_run [of w dir E host out_l err_l fs_l] by simp
  assume f: "fresh_dir dir (files w)"
  show "\<not> path_exists w (path_join dir ''stub.sycl'')"
    using fresh_dir_not_exists [OF f within_path_join [of "''stub.sycl''" dir]]
    by (simp add: path_exists_def)
  show "\<not> path_exists w (path_join dir ''host.o'')"
    using fresh_dir_not_exists [OF f within_path_join [of "''host.o''" dir]]
    by (simp add: path_exists_def)
  show "\<not> path_exists w (path_join dir ''visioncpp_native'')"
    using fresh_dir_not_exists [OF f within_path_join [of "''visioncpp_native''" dir]]
    by (simp add: path_exists_def)
qed

theorem stage_output_assertions_witness:
  "path_exists \<lparr>files = {''/tmp/visioncpp-a1b2c3/stub.sycl'', ''/tmp/visioncpp-a1b2c3/host.o'',
                         ''/tmp/visioncpp-a1b2c3/visioncpp_native''}, trace = []\<rparr>
     (path_join ''/tmp/visioncpp-a1b2c3'' ''stub.sycl'')
   \<and> stub_file (fake_env never 0 [] 30) ''int x;'' ''/tmp/visioncpp-a1b2c3''
         \<lparr>files = {''/tmp/visioncpp-a1b2c3/stub.sycl'', ''/tmp/visioncpp-a1b2c3/host.o'',
                    ''/tmp/visioncpp-a1b2c3/visioncpp_native''}, trace = []\<rparr>
       = (Inl AssertionError,
          \<lparr>files = {''/tmp/visioncpp-a1b2c3/stub.sycl'', ''/tmp/visioncpp-a1b2c3/host.o'',
                    ''/tmp/visioncpp-a1b2c3/visioncpp_native''}, trace = []\<rparr>)
   \<and> host_compile (fake_env never 0 [] 30) ''int x;'' ''/tmp/visioncpp-a1b2c3/stub.sycl''
         ''/tmp/visioncpp-a1b2c3''
         \<lparr>files = {''/tmp/visioncpp-a1b2c3/stub.sycl'', ''/tmp/visioncpp-a1b2c3/host.o'',
                    ''/tmp/visioncpp-a1b2c3/visioncpp_native''}, trace = []\<rparr>
       = (Inl AssertionError,
          \<lparr>files = {''/tmp/visioncpp-a1b2c3/stub.sycl'', ''/tmp/visioncpp-a1b2c3/host.o'',
                    ''/tmp/visioncpp-a1b2c3/visioncpp_native''}, trace = []\<rparr>)
   \<and> link (fake_env never 0 [] 30) ''/tmp/visioncpp-a1b2c3/host.o'' ''/tmp/visioncpp-a1b2c3''
         \<lparr>files = {''/tmp/visioncpp-a1b2c3/stub.sycl'', ''/tmp/visioncpp-a1b2c3/host.o'',
                    ''/tmp/visioncpp-a1b2c3/visioncpp_native''}, trace = []\<rparr>
       = (Inl AssertionError,
          \<lparr>files = {''/tmp/visioncpp-a1b2c3/stub.sycl'', ''/tmp/visioncpp-a1b2c3/host.o'',
                    ''/tmp/visioncpp-a1b2c3/visioncpp_native''}, trace = []\<rparr>)
   \<and> fresh_dir ''/tmp/visioncpp-a1b2c3'' (files installed)
   \<and> \<not> path_exists installed (path_join ''/tmp/visioncpp-a1b2c3'' ''stub.sycl'')
   \<and> fst (stub_file (fake_env never 0 [] 30) ''int x;'' ''/tmp/visioncpp-a1b2c3'' installed)
       = Inr ''/tmp/visioncpp-a1b2c3/stub.sycl''
   \<and> fst (host_compile (fake_env never 0 [] 30) ''int x;'' ''/tmp/visioncpp-a1b2c3/stub.sycl''
            ''/tmp/visioncpp-a1b2c3'' installed)
       = Inr ''/tmp/visioncpp-a1b2c3/host.o''
   \<and> fst (link (fake_env never 0 [] 30) ''/tmp/visioncpp-a1b2c3/host.o''
            ''/tmp/visioncpp-a1b2c3'' installed)
       = Inr ''/tmp/visioncpp-a1b2c3/visioncpp_native''"
proof -
  let ?E = "fake_env never 0 [] 30"
  let ?tmp = "''/tmp/visioncpp-a1b2c3''"
  let ?d1 = "''/tmp/visioncpp-a1b2c3/stub.sycl''"
  let ?d2 = "''/tmp/visioncpp-a1b2c3/host.o''"
  let ?d3 = "''/tmp/visioncpp-a1b2c3/visioncpp_native''"
  let ?wA = "\<lparr>files = {?d1, ?d2, ?d3}, trace = []\<rparr>"
  note tA = stage_output_assertions [where w = ?wA and dir = ?tmp and E = ?E
              and code = "''int x;''" and stub = ?d1 and host = ?d2]
  note tS = stage_output_assertions [where w = installed and dir = ?tmp and E = ?E
              and code = "''int x;''" and stub = ?d1 and host = ?d2
              and ?rc0.0 = 0 and ?out0.0 = "[]" and ?err0.0 = "[]" and ?fs0.0 = "files installed"
              and out_s = "[]" and err_s = "[]" and fs_s = "insert ?d1 (files installed)"
              and out_h = "[]" and err_h = "[]" and fs_h = "insert ?d2 (files installed)"
              and out_l = "[]" and err_l = "[]" and fs_l = "insert ?d3 (files installed)"]
  have a1: "path_exists ?wA (path_join ?tmp ''stub.sycl'')"
    and a2: "path_exists ?wA (path_join ?tmp ''host.o'')"
    and a3: "path_exists ?wA (path_join ?tmp ''visioncpp_native'')"
    by (simp_all add: fake_paths path_exists_def)
  note r1 = tA [THEN conjunct1, THEN mp, OF a1]
  note r2 = tA [THEN conjunct2, THEN conjunct1, THEN mp, OF a2]
  note r3 = tA [THEN conjunct2, THEN conjunct2, THEN conjunct1, THEN mp, OF a3]
  have f: "fresh_dir ?tmp (files installed)"
    by (simp add: fresh_dir_def installed_def within_def dir_sep_def)
  have n1: "\<not> path_exists installed (path_join ?tmp ''stub.sycl'')"
    and n2: "\<not> path_exists installed (path_join ?tmp ''host.o'')"
    and n3: "\<not> path_exists installed (path_join ?tmp ''visioncpp_native'')"
    by (simp_all add: fake_paths path_exists_def installed_def)
  have h1: "\<not> path_exists installed (path_join ?tmp ''stub.sycl'')
       \<and> popen ?E (device_info_cmd ?E) None (files installed)
           = Exited 0 [] [] (files installed)
       \<and> utf8_valid []
       \<and> popen ?E (computecpp ?E # stub_args ?E (split_ws []) (path_join ?tmp ''stub.sycl''))
            (Some ''int x;'') (files installed) = Exited 0 [] [] (insert ?d1 (files installed))"
    using n1 by (simp add: fake_paths fake_runs split_ws_def utf8_valid_def)
  have h2: "\<not> path_exists installed (path_join ?tmp ''host.o'')
       \<and> popen ?E (computecpp ?E # host_args ?E ?d1 (path_join ?tmp ''host.o''))
            (Some ''int x;'') (files installed) = Exited 0 [] [] (insert ?d2 (files installed))"
    using n2 by (simp add: fake_paths fake_runs)
  have h3: "\<not> path_exists installed (path_join ?tmp ''visioncpp_native'')
       \<and> popen ?E (computecpp ?E # link_args ?E ?d2 (path_join ?tmp ''visioncpp_native''))
            None (files installed) = Exited 0 [] [] (insert ?d3 (files installed))"
    using n3 by (simp add: fake_paths fake_runs)
  note s1 = tS [THEN conjunct2, THEN conjunct2, THEN conjunct2, THEN conjunct1, THEN mp, OF h1]
  note s2 = tS [THEN conjunct2, THEN conjunct2, THEN conjunct2, THEN conjunct2, THEN conjunct1,
                THEN mp, OF h2]
  note s3 = tS [THEN conjunct2, THEN conjunct2, THEN conjunct2, THEN conjunct2, THEN conjunct2,
                THEN conjunct1, THEN mp, OF h3]
  have e1: "fst (stub_file ?E ''int x;'' ?tmp installed) = Inr ?d1"
    using s1 by (simp add: fake_paths)
  have e2: "fst (host_compile ?E ''int x;'' ?d1 ?tmp installed) = Inr ?d2"
    using s2 by (simp add: fake_paths)
  have e3: "fst (link ?E ?d2 ?tmp installed) = Inr ?d3"
    using s3 by (simp add: fake_paths)
  from a1 r1 r2 r3 f n1 e1 e2 e3 show ?thesis by (intro conjI)
qed

subsection \<open>C10: device flags are read whatever the exit status\<close>

text \<open>
  Claim C10, as the specification states it: \<open>get_device_cflags\<close> never looks at the exit
  status of the device-info tool; for every outcome of that process it returns the
  white-space-separated tokens of the captured output (the empty list for an empty
  output) and raises no error.

  The output is decoded as UTF-8 first, which raises \<^verbatim>\<open>UnicodeDecodeError\<close> when it is
  not well-formed. What holds: for every return code and every error output, if the
  captured output is well-formed UTF-8 the function returns its tokens.
\<close>

theorem device_flags_tolerant:
  assumes "popen E (device_info_cmd E) None (files w) = Exited rc out err fs"
    and "utf8_valid out"
  shows "get_device_cflags E w
           = (Inr (split_ws out), (emit (Spawn (device_info_cmd E) None) w)\<lparr>files := fs\<rparr>)
         \<and> (out = [] \<longrightarrow> fst (get_device_cflags E w) = Inr [])"
proof -
  from assms have "get_device_cflags E w
           = (Inr (split_ws out), (emit (Spawn (device_info_cmd E) None) w)\<lparr>files := fs\<rparr>)"
    by (simp add: get_device_cflags_def decode_utf8_def)
  moreover have "split_ws [] = []" by (simp add: split_ws_def)
  ultimately show ?thesis by auto
qed

theorem device_flags_tolerant_witness:
  "popen (fake_env always 3 ''-sycl  -O2'' 30) (device_info_cmd (fake_env always 3 ''-sycl  -O2'' 30))
      None (files installed) = Exited 3 ''-sycl  -O2'' ''failed'' (files installed)
   \<and> utf8_valid ''-sycl  -O2''
   \<and> fst (get_device_cflags (fake_env always 3 ''-sycl  -O2'' 30) installed)
       = Inr [''-sycl'', ''-O2'']"
proof -
  have a: "popen (fake_env always 3 ''-sycl  -O2'' 30)
             (device_info_cmd (fake_env always 3 ''-sycl  -O2'' 30))
             None (files installed) = Exited 3 ''-sycl  -O2'' ''failed'' (files installed)"
    by (simp add: fake_env_def fake_popen_def always_def)
  have b: "utf8_valid ''-sycl  -O2''" by (simp add: utf8_valid_def)
  have c: "split_ws ''-sycl  -O2'' = [''-sycl'', ''-O2'']" by (simp add: split_ws_def)
  from device_flags_tolerant [OF a b]
  have "fst (get_device_cflags (fake_env always 3 ''-sycl  -O2'' 30) installed)
          = Inr (split_ws ''-sycl  -O2'')"
    by simp
  with a b c show ?thesis by simp
qed

text \<open>The claim as stated fails for a process that prints the single byte \<^verbatim>\<open>0xFF\<close>.\<close>

theorem device_flags_counterexample:
  "fst (get_device_cflags (fake_env never 0 [CHR 0xFF] 30) installed) = Inl UnicodeDecodeError"
  by (simp add: get_device_cflags_def fake_env_def fake_popen_def never_def decode_utf8_def
        utf8_valid_def device_info_cmd_def)

end
